theory Spec2Isabelle
  imports Complex_Main "HOL-Library.Log_Nat" "HOL-Library.Code_Target_Numeral"
begin

section \<open>Plain JavaScript data\<close>

text \<open>
  The helpers of \<^verbatim>\<open>tests/helpers/testData.js\<close> work on plain data: the values that an
  object literal or a decoded JSON body is made of. A number is an IEEE double: a finite
  one is given by its exact (rational) value, and the three special values are kept apart.
  A string is a list of code units; \<^typ>\<open>char\<close> covers the code units below 256.
  An array is the list of its elements. An object is the sequence of its property
  definitions, in the order in which they were written: as in an object literal, a later
  definition of a key wins.
  Functions and objects with accessors or with a prototype of their own are not modelled.
\<close>

datatype jsnum = NaN | PosInf | NegInf | Fin rat

datatype jsval =
    JUndefined
  | JNull
  | JBool bool
  | JNum jsnum
  | JStr string
  | JArr "jsval list"
  | JObj "(string \<times> jsval) list"

type_synonym props = "(string \<times> jsval) list"

text \<open>A thrown exception: \<^verbatim>\<open>new Error(message)\<close>, or a \<^verbatim>\<open>TypeError\<close> of the runtime.\<close>

datatype error = Error string | TypeError string

text \<open>
  What a property read can yield: a data value, or a member that every object inherits
  from \<^verbatim>\<open>Object.prototype\<close> (a builtin function, or the prototype object itself for
  \<^verbatim>\<open>__proto__\<close>), named by its key.
\<close>

datatype member = Data jsval | Builtin string

subsection \<open>Numbers\<close>

text \<open>
  The finite doubles are the rationals \<open>m * 2^e\<close> with \<open>\<bar>m\<bar> < 2^53\<close> and
  \<open>-1074 \<le> e \<le> 971\<close>; in \<open>Fin x\<close> the rational \<open>x\<close> is one of them.
\<close>

definition is_double :: "rat \<Rightarrow> bool" where
  "is_double x = (\<exists>m e. \<bar>m\<bar> < 2 ^ 53 \<and> - 1074 \<le> e \<and> e \<le> 971 \<and> x = of_int m * 2 powi e)"

text \<open>\<open>floor_log b x\<close> is the integer \<open>n\<close> with \<open>b^n \<le> x < b^(n+1)\<close>, for positive \<open>x\<close>.\<close>

definition floor_log :: "nat \<Rightarrow> rat \<Rightarrow> int" where
  "floor_log b x =
     (if 1 \<le> x then int (floorlog b (nat \<lfloor>x\<rfloor>)) - 1
      else - int (floorlog b (nat (\<lceil>1 / x\<rceil> - 1))))"

text \<open>
  The result of an arithmetic operation is the exact result rounded to the nearest double,
  a tie going to the even significand: in the binade of exponent \<open>e\<close> (at least \<open>-1022\<close>,
  where the subnormal numbers begin) the doubles are the multiples of \<open>2^(e - 52)\<close>.
  (A result of magnitude \<open>2^1024\<close> or more is infinite in the language; the products and
  sums of \<^verbatim>\<open>generateId\<close> stay far below.)
\<close>

definition round_half_even :: "rat \<Rightarrow> int" where
  "round_half_even q =
     (let f = \<lfloor>q\<rfloor>; d = q - of_int f
      in if d < 1 / 2 then f else if 1 / 2 < d then f + 1 else if even f then f else f + 1)"

definition round_double :: "rat \<Rightarrow> rat" where
  "round_double x =
     (if x = 0 then 0
      else
        let a = \<bar>x\<bar>;
            e = max (floor_log 2 a) (- 1022);
            u = 2 powi (e - 52)
        in sgn x * of_int (round_half_even (a / u)) * u)"

text \<open>\<^verbatim>\<open>n <= 0\<close> on numbers: every comparison with \<^verbatim>\<open>NaN\<close> is false.\<close>

fun num_le_zero :: "jsnum \<Rightarrow> bool" where
  "num_le_zero NaN = False"
| "num_le_zero PosInf = False"
| "num_le_zero NegInf = True"
| "num_le_zero (Fin q) = (q \<le> 0)"

subsection \<open>Numbers as strings\<close>

text \<open>The decimal digits of a natural number, and of an integer with its sign.\<close>

definition digit_char :: "nat \<Rightarrow> char" where
  "digit_char d = ''0123456789'' ! d"

fun digits :: "nat \<Rightarrow> string" where
  "digits n = (if n < 10 then [digit_char n] else digits (n div 10) @ [digit_char (n mod 10)])"

declare digits.simps [simp del]

definition show_int :: "int \<Rightarrow> string" where
  "show_int i = (if i < 0 then CHR ''-'' # digits (nat (- i)) else digits (nat i))"

text \<open>
  \<^verbatim>\<open>Number.prototype.toString\<close>, as array elements and the argument of a regular
  expression test are converted. For a positive double \<open>x\<close> the language takes integers
  \<open>k \<ge> 1\<close>, \<open>s\<close> with \<open>k\<close> digits and \<open>n\<close> such that \<open>s * 10^(n - k)\<close> rounds to \<open>x\<close>, with \<open>k\<close>
  as small as possible and, among these, \<open>s * 10^(n - k)\<close> closest to \<open>x\<close>. With
  \<open>10^(n0 - 1) \<le> x < 10^n0\<close>, the only numbers of \<open>k\<close> digits that can round to \<open>x\<close> are
  the two around \<open>x / 10^(n0 - k)\<close>, the upper one passing to the next power of ten when it
  has \<open>k + 1\<close> digits. Seventeen digits are enough for every double.
\<close>

definition decimal_candidates :: "rat \<Rightarrow> int \<Rightarrow> nat \<Rightarrow> (int \<times> int) list" where
  "decimal_candidates x n0 k =
     (let s1 = \<lfloor>x / 10 powi (n0 - int k)\<rfloor>;
          c1 = (s1, n0);
          c2 = (if s1 + 1 = 10 ^ k then (10 ^ (k - 1), n0 + 1) else (s1 + 1, n0))
      in filter (\<lambda>(s, n). round_double (of_int s * 10 powi (n - int k)) = x) [c1, c2])"

fun closest :: "rat \<Rightarrow> nat \<Rightarrow> (int \<times> int) list \<Rightarrow> (int \<times> int) option" where
  "closest x k [] = None"
| "closest x k [c] = Some c"
| "closest x k ((s1, n1) # (s2, n2) # cs) =
     (let d1 = \<bar>of_int s1 * 10 powi (n1 - int k) - x\<bar>;
          d2 = \<bar>of_int s2 * 10 powi (n2 - int k) - x\<bar>
      in if d1 < d2 then Some (s1, n1)
         else if d2 < d1 then Some (s2, n2)
         else if even s1 then Some (s1, n1) else Some (s2, n2))"

function shortest_decimal :: "rat \<Rightarrow> int \<Rightarrow> nat \<Rightarrow> nat \<times> int \<times> int" where
  "shortest_decimal x n0 k =
     (if 17 \<le> k then (k, \<lfloor>x / 10 powi (n0 - int k) + 1 / 2\<rfloor>, n0)
      else case closest x k (decimal_candidates x n0 k) of
             Some (s, n) \<Rightarrow> (k, s, n)
           | None \<Rightarrow> shortest_decimal x n0 (Suc k))"
  by pat_completeness auto

termination
  by (relation "measure (\<lambda>(x, n0, k). 17 - k)") auto

declare shortest_decimal.simps [simp del]

text \<open>
  The digits of \<open>s\<close> are then written plainly when \<open>-6 < n \<le> 21\<close> (followed by zeros, or
  with a point inside, or after \<^verbatim>\<open>0.\<close> and zeros), and with an exponent otherwise.
\<close>

definition format_decimal :: "nat \<times> int \<times> int \<Rightarrow> string" where
  "format_decimal c =
     (case c of (k, s, n) \<Rightarrow>
        let ds = digits (nat s) in
        if int k \<le> n \<and> n \<le> 21 then ds @ replicate (nat (n - int k)) CHR ''0''
        else if 0 < n \<and> n \<le> 21 then take (nat n) ds @ ''.'' @ drop (nat n) ds
        else if - 6 < n \<and> n \<le> 0 then ''0.'' @ replicate (nat (- n)) CHR ''0'' @ ds
        else
          let ex = (if n - 1 < 0 then ''e-'' else ''e+'') @ digits (nat \<bar>n - 1\<bar>)
          in if k = 1 then ds @ ex else hd ds # ''.'' @ tl ds @ ex)"

definition positive_to_string :: "rat \<Rightarrow> string" where
  "positive_to_string x = format_decimal (shortest_decimal x (floor_log 10 x + 1) 1)"

fun num_to_string :: "jsnum \<Rightarrow> string" where
  "num_to_string NaN = ''NaN''"
| "num_to_string PosInf = ''Infinity''"
| "num_to_string NegInf = ''-Infinity''"
| "num_to_string (Fin x) =
     (if x = 0 then ''0''
      else if x < 0 then CHR ''-'' # positive_to_string (- x)
      else positive_to_string x)"

subsection \<open>Operators of the language\<close>

text \<open>\<^verbatim>\<open>typeof v\<close>.\<close>

fun typeof :: "jsval \<Rightarrow> string" where
  "typeof JUndefined = ''undefined''"
| "typeof JNull = ''object''"
| "typeof (JBool b) = ''boolean''"
| "typeof (JNum n) = ''number''"
| "typeof (JStr s) = ''string''"
| "typeof (JArr xs) = ''object''"
| "typeof (JObj ps) = ''object''"

text \<open>Truthiness: \<^verbatim>\<open>!v\<close> is \<open>\<not> truthy v\<close>.\<close>

fun truthy :: "jsval \<Rightarrow> bool" where
  "truthy JUndefined = False"
| "truthy JNull = False"
| "truthy (JBool b) = b"
| "truthy (JNum NaN) = False"
| "truthy (JNum (Fin q)) = (q \<noteq> 0)"
| "truthy (JNum n) = True"
| "truthy (JStr s) = (s \<noteq> [])"
| "truthy (JArr xs) = True"
| "truthy (JObj ps) = True"

text \<open>
  The own property of a key: for an object the last definition of the key in the sequence;
  for an array its length and its elements, each under the decimal form of its index.
\<close>

definition own_prop :: "props \<Rightarrow> string \<Rightarrow> jsval option" where
  "own_prop ps k = map_of (rev ps) k"

definition indexed :: "jsval list \<Rightarrow> props" where
  "indexed xs = zip (map digits [0..<length xs]) xs"

fun own :: "jsval \<Rightarrow> string \<Rightarrow> jsval option" where
  "own (JObj ps) k = own_prop ps k"
| "own (JArr xs) k =
     (if k = ''length'' then Some (JNum (Fin (of_nat (length xs)))) else map_of (indexed xs) k)"
| "own v k = None"

text \<open>
  The property names of \<^verbatim>\<open>Object.prototype\<close>, which every object inherits, and those of
  \<^verbatim>\<open>Array.prototype\<close> (ECMAScript 2023), which an array inherits before them.
\<close>

definition object_prototype_keys :: "string list" where
  "object_prototype_keys =
     [''constructor'', ''__defineGetter__'', ''__defineSetter__'', ''hasOwnProperty'',
      ''__lookupGetter__'', ''__lookupSetter__'', ''isPrototypeOf'',
      ''propertyIsEnumerable'', ''toString'', ''valueOf'', ''__proto__'',
      ''toLocaleString'']"

definition array_prototype_keys :: "string list" where
  "array_prototype_keys =
     [''constructor'', ''at'', ''concat'', ''copyWithin'', ''entries'', ''every'', ''fill'',
      ''filter'', ''find'', ''findIndex'', ''findLast'', ''findLastIndex'', ''flat'',
      ''flatMap'', ''forEach'', ''includes'', ''indexOf'', ''join'', ''keys'', ''lastIndexOf'',
      ''map'', ''pop'', ''push'', ''reduce'', ''reduceRight'', ''reverse'', ''shift'', ''slice'',
      ''some'', ''sort'', ''splice'', ''toLocaleString'', ''toReversed'', ''toSorted'',
      ''toSpliced'', ''toString'', ''unshift'', ''values'', ''with'']"

fun inherited_keys :: "jsval \<Rightarrow> string list" where
  "inherited_keys (JArr xs) = array_prototype_keys @ object_prototype_keys"
| "inherited_keys v = object_prototype_keys"

text \<open>
  \<^verbatim>\<open>key in obj\<close>: an own or an inherited property. (On a value that is not an object the
  operator throws; the validators apply it only behind their object check.)
\<close>

definition js_in :: "string \<Rightarrow> jsval \<Rightarrow> bool" where
  "js_in k v = (own v k \<noteq> None \<or> k \<in> set (inherited_keys v))"

text \<open>\<^verbatim>\<open>obj[key]\<close> and \<^verbatim>\<open>obj.key\<close>: the own property, else the inherited one, else undefined.\<close>

definition get_member :: "jsval \<Rightarrow> string \<Rightarrow> member" where
  "get_member v k =
     (case own v k of
        Some x \<Rightarrow> Data x
      | None \<Rightarrow> if k \<in> set (inherited_keys v) then Builtin k else Data JUndefined)"

text \<open>\<^verbatim>\<open>Array.prototype.join\<close> on an array of strings.\<close>

fun join :: "string \<Rightarrow> string list \<Rightarrow> string" where
  "join sep [] = []"
| "join sep [x] = x"
| "join sep (x # y # ys) = x @ sep @ join sep (y # ys)"

text \<open>
  White space as \<^verbatim>\<open>\s\<close> and \<^verbatim>\<open>String.prototype.trim\<close> understand it (the same set for
  both): tab, line feed, vertical tab, form feed, carriage return, space and no-break
  space, among the code units below 256.
\<close>

definition is_space :: "char \<Rightarrow> bool" where
  "is_space c = (c \<in> set [CHR 0x09, CHR 0x0A, CHR 0x0B, CHR 0x0C, CHR 0x0D, CHR 0x20, CHR 0xA0])"

definition trim :: "string \<Rightarrow> string" where
  "trim s = rev (dropWhile is_space (rev (dropWhile is_space s)))"

subsection \<open>Regular expressions\<close>

text \<open>
  The fragment of the pattern language that the email pattern uses: a literal character,
  a negated character class, concatenation and the \<^verbatim>\<open>+\<close> quantifier (one or more, that
  is \<open>Times r (Star r)\<close>). A pattern anchored by \<^verbatim>\<open>^\<close> and \<^verbatim>\<open>$\<close> and without flags has
  to match the whole string; \<open>rx_test\<close> decides that with derivatives.
\<close>

datatype citem = CChar char | CSpace

fun citem_has :: "citem \<Rightarrow> char \<Rightarrow> bool" where
  "citem_has (CChar d) c = (c = d)"
| "citem_has CSpace c = is_space c"

datatype rx =
    Zero
  | One
  | Lit char
  | NegClass "citem list"
  | Alt rx rx
  | Times rx rx
  | Star rx

definition Plus :: "rx \<Rightarrow> rx" where
  "Plus r = Times r (Star r)"

fun nullable :: "rx \<Rightarrow> bool" where
  "nullable Zero = False"
| "nullable One = True"
| "nullable (Lit d) = False"
| "nullable (NegClass is) = False"
| "nullable (Alt r s) = (nullable r \<or> nullable s)"
| "nullable (Times r s) = (nullable r \<and> nullable s)"
| "nullable (Star r) = True"

fun deriv :: "char \<Rightarrow> rx \<Rightarrow> rx" where
  "deriv c Zero = Zero"
| "deriv c One = Zero"
| "deriv c (Lit d) = (if c = d then One else Zero)"
| "deriv c (NegClass is) = (if list_ex (\<lambda>i. citem_has i c) is then Zero else One)"
| "deriv c (Alt r s) = Alt (deriv c r) (deriv c s)"
| "deriv c (Times r s) =
     (if nullable r then Alt (Times (deriv c r) s) (deriv c s) else Times (deriv c r) s)"
| "deriv c (Star r) = Times (deriv c r) (Star r)"

fun rx_test :: "rx \<Rightarrow> string \<Rightarrow> bool" where
  "rx_test r [] = nullable r"
| "rx_test r (c # cs) = rx_test (deriv c r) cs"

text \<open>\<^verbatim>\<open>/^[^\s@]+@[^\s@]+\.[^\s@]+$/\<close>\<close>

definition emailRegex :: rx where
  "emailRegex =
     Times (Plus (NegClass [CSpace, CChar CHR ''@'']))
    (Times (Lit CHR ''@'')
    (Times (Plus (NegClass [CSpace, CChar CHR ''@'']))
    (Times (Lit CHR ''.'')
           (Plus (NegClass [CSpace, CChar CHR ''@''])))))"

text \<open>
  The conversion of a value to a string. Undefined, null and the booleans are their names.
  An array is its elements joined by commas, undefined and null elements being empty. A
  plain object is \<^verbatim>\<open>[object Object]\<close> through the inherited \<^verbatim>\<open>toString\<close>; when the
  object has an own data property \<^verbatim>\<open>toString\<close>, that one is found, is not callable,
  \<^verbatim>\<open>valueOf\<close> yields no primitive either, and the conversion throws.
\<close>

fun to_string :: "jsval \<Rightarrow> error + string"
  and join_elements :: "jsval list \<Rightarrow> error + string" where
  "to_string JUndefined = Inr ''undefined''"
| "to_string JNull = Inr ''null''"
| "to_string (JBool b) = Inr (if b then ''true'' else ''false'')"
| "to_string (JNum n) = Inr (num_to_string n)"
| "to_string (JStr s) = Inr s"
| "to_string (JArr xs) = join_elements xs"
| "to_string (JObj ps) =
     (if own_prop ps ''toString'' = None then Inr ''[object Object]''
      else Inl (TypeError ''Cannot convert object to primitive value''))"
| "join_elements [] = Inr []"
| "join_elements (x # xs) =
     (case (if x = JUndefined \<or> x = JNull then Inr [] else to_string x) of
        Inl e \<Rightarrow> Inl e
      | Inr s \<Rightarrow>
          if xs = [] then Inr s
          else (case join_elements xs of Inl e \<Rightarrow> Inl e | Inr t \<Rightarrow> Inr (s @ '','' @ t)))"

text \<open>
  \<^verbatim>\<open>emailRegex.test(x)\<close> converts \<open>x\<close> to a string first. An inherited builtin is a
  function whose source text has spaces (or the prototype object, \<^verbatim>\<open>[object Object]\<close>):
  no match.
\<close>

definition emailRegex_test :: "member \<Rightarrow> error + bool" where
  "emailRegex_test m =
     (case m of
        Data v \<Rightarrow> (case to_string v of Inl e \<Rightarrow> Inl e | Inr s \<Rightarrow> Inr (rx_test emailRegex s))
      | Builtin k \<Rightarrow> Inr False)"

section \<open>Response validators\<close>

text \<open>
  Each validator returns nothing or throws: \<open>Inr ()\<close> or \<open>Inl\<close> of the exception.
  \<^verbatim>\<open>typeof x !== 'number' || x <= 0\<close> reads the type first, so the comparison is made on
  numbers only; likewise \<^verbatim>\<open>trim\<close> is called on strings only.
\<close>

definition not_positive_number :: "member \<Rightarrow> bool" where
  "not_positive_number m = (case m of Data (JNum n) \<Rightarrow> num_le_zero n | _ \<Rightarrow> True)"

definition not_nonempty_string :: "member \<Rightarrow> bool" where
  "not_nonempty_string m = (case m of Data (JStr s) \<Rightarrow> trim s = [] | _ \<Rightarrow> True)"

definition validatePost :: "jsval \<Rightarrow> error + unit" where
  "validatePost post =
     (if \<not> truthy post \<or> typeof post \<noteq> ''object'' then Inl (Error ''Post must be an object'')
      else
        let requiredFields = [''id'', ''userId'', ''title'', ''body''];
            missingFields = filter (\<lambda>field. \<not> js_in field post) requiredFields
        in
          if length missingFields > 0
          then Inl (Error (''Post missing required fields: '' @ join '', '' missingFields))
          else if not_positive_number (get_member post ''id'')
          then Inl (Error ''Post ID must be a positive number'')
          else if not_positive_number (get_member post ''userId'')
          then Inl (Error ''User ID must be a positive number'')
          else if not_nonempty_string (get_member post ''title'')
          then Inl (Error ''Post title must be a non-empty string'')
          else if not_nonempty_string (get_member post ''body'')
          then Inl (Error ''Post body must be a non-empty string'')
          else Inr ())"

definition validateUser :: "jsval \<Rightarrow> error + unit" where
  "validateUser user =
     (if \<not> truthy user \<or> typeof user \<noteq> ''object'' then Inl (Error ''User must be an object'')
      else
        let requiredFields = [''id'', ''name'', ''username'', ''email''];
            missingFields = filter (\<lambda>field. \<not> js_in field user) requiredFields
        in
          if length missingFields > 0
          then Inl (Error (''User missing required fields: '' @ join '', '' missingFields))
          else
            case emailRegex_test (get_member user ''email'') of
              Inl e \<Rightarrow> Inl e
            | Inr matched \<Rightarrow>
                if \<not> matched then Inl (Error ''User email must be valid format'') else Inr ())"

definition validateComment :: "jsval \<Rightarrow> error + unit" where
  "validateComment comment =
     (if \<not> truthy comment \<or> typeof comment \<noteq> ''object''
      then Inl (Error ''Comment must be an object'')
      else
        let requiredFields = [''id'', ''postId'', ''name'', ''email'', ''body''];
            missingFields = filter (\<lambda>field. \<not> js_in field comment) requiredFields
        in
          if length missingFields > 0
          then Inl (Error (''Comment missing required fields: '' @ join '', '' missingFields))
          else Inr ())"

section \<open>Test data factory\<close>

text \<open>
  \<^verbatim>\<open>...overrides\<close> in an object literal defines the own enumerable properties of the
  value, in order: those of an object, the indexed elements of an array, the indexed
  characters of a string, and nothing for undefined, null, a boolean or a number. A parameter declared \<^verbatim>\<open>overrides = {}\<close> is
  the empty object when the argument is missing or undefined.
\<close>

fun spread :: "jsval \<Rightarrow> props" where
  "spread (JObj ps) = ps"
| "spread (JArr xs) = indexed xs"
| "spread (JStr s) = indexed (map (\<lambda>c. JStr [c]) s)"
| "spread v = []"

definition default_arg :: "jsval \<Rightarrow> jsval \<Rightarrow> jsval" where
  "default_arg v d = (if v = JUndefined then d else v)"

text \<open>
  \<^verbatim>\<open>Date.now() + Math.floor(Math.random() * 1000)\<close>. The clock and the random generator
  are inputs: \<open>now\<close> is the time in milliseconds, an integer of magnitude at most
  \<open>8.64 * 10^15\<close>, and \<open>rnd\<close> is the double in \<open>[0, 1)\<close> that \<^verbatim>\<open>Math.random()\<close> returns.
  The product and the sum are double operations and are rounded; the result is an integer.
  A template literal writes such an identifier, which is below \<open>2^53\<close> in magnitude, as
  its decimal digits: \<open>show_int\<close>.
\<close>

definition generateId :: "int \<Rightarrow> rat \<Rightarrow> int" where
  "generateId now rnd =
     \<lfloor>round_double (of_int now + of_int \<lfloor>round_double (rnd * 1000)\<rfloor>)\<rfloor>"

definition createPost :: "jsval \<Rightarrow> jsval" where
  "createPost overrides_arg =
     (let overrides = default_arg overrides_arg (JObj []) in
      JObj ([(''userId'', JNum (Fin 1)),
             (''title'', JStr ''Test Post Title''),
             (''body'', JStr ''This is a test post body with meaningful content.'')]
            @ spread overrides))"

definition createUser :: "int \<Rightarrow> rat \<Rightarrow> jsval \<Rightarrow> jsval" where
  "createUser now rnd overrides_arg =
     (let overrides = default_arg overrides_arg (JObj []);
          id = generateId now rnd in
      JObj ([(''name'', JStr ''Test User''),
             (''username'', JStr (''testuser'' @ show_int id)),
             (''email'', JStr (''test'' @ show_int id @ ''@example.com'')),
             (''address'', JObj
                [(''street'', JStr ''Test Street''),
                 (''suite'', JStr ''Apt. 123''),
                 (''city'', JStr ''Test City''),
                 (''zipcode'', JStr ''12345''),
                 (''geo'', JObj [(''lat'', JStr ''0.0000''), (''lng'', JStr ''0.0000'')])]),
             (''phone'', JStr ''1-234-567-8901''),
             (''website'', JStr ''testuser.com''),
             (''company'', JObj
                [(''name'', JStr ''Test Company''),
                 (''catchPhrase'', JStr ''Testing excellence''),
                 (''bs'', JStr ''quality assurance'')])]
            @ spread overrides))"

definition createComment :: "int \<Rightarrow> rat \<Rightarrow> jsval \<Rightarrow> jsval" where
  "createComment now rnd overrides_arg =
     (let overrides = default_arg overrides_arg (JObj []);
          id = generateId now rnd in
      JObj ([(''postId'', JNum (Fin 1)),
             (''name'', JStr ''Test Comment''),
             (''email'', JStr (''commenter'' @ show_int id @ ''@example.com'')),
             (''body'', JStr ''This is a test comment with valuable feedback.'')]
            @ spread overrides))"

text \<open>
  \<^verbatim>\<open>invalidPatterns[type] || {}\<close>: the read follows the prototype chain of the literal, and
  every object or function it can yield is truthy.
\<close>

definition invalidPatterns :: jsval where
  \<open>invalidPatterns = JObj
     [(''emptyPost'', JObj []),
      (''missingRequiredFields'', JObj [(''title'', JStr ''Only Title'')]),
      (''invalidTypes'', JObj [(''userId'', JStr ''not-a-number''), (''title'', JNum (Fin 123))]),
      (''oversizedData'', JObj
         [(''title'', JStr (replicate 1000 CHR ''x'')),
          (''body'', JStr (replicate 10000 CHR ''y''))]),
      (''sqlInjection'', JObj
         [(''title'', JStr (CHR 0x27 # ''; DROP TABLE posts; --'')),
          (''body'', JStr ''1 OR 1=1'')]),
      (''xssAttempt'', JObj
         [(''title'', JStr (''<script>alert('' @ [CHR 0x22] @ ''xss'' @ [CHR 0x22] @ '')</script>'')),
          (''body'', JStr ''<img src=x onerror=alert(1)>'')])]\<close>

definition createInvalidData :: "string \<Rightarrow> member" where
  "createInvalidData type =
     (case get_member invalidPatterns type of
        Data v \<Rightarrow> if truthy v then Data v else Data (JObj [])
      | Builtin k \<Rightarrow> Builtin k)"

section \<open>The email pattern in words\<close>

text \<open>
  The specification describes the email pattern in words: one or more characters that are
  neither white space nor \<^verbatim>\<open>@\<close>; then \<^verbatim>\<open>@\<close>; then one or more such characters again; then a
  dot; then one or more characters that are not white space. \<open>spec_email_pattern\<close> follows
  these words. \<open>email_pattern\<close> differs in the last part only, which excludes \<^verbatim>\<open>@\<close> as
  the first two do; it is compared with \<open>emailRegex\<close> below.
\<close>

definition email_part :: "string \<Rightarrow> bool" where
  "email_part w = (w \<noteq> [] \<and> (\<forall>c\<in>set w. \<not> is_space c \<and> c \<noteq> CHR ''@''))"

definition nonspace_part :: "string \<Rightarrow> bool" where
  "nonspace_part w = (w \<noteq> [] \<and> (\<forall>c\<in>set w. \<not> is_space c))"

definition spec_email_pattern :: "string \<Rightarrow> bool" where
  "spec_email_pattern s =
     (\<exists>a b c. s = a @ ''@'' @ b @ ''.'' @ c \<and> email_part a \<and> email_part b \<and> nonspace_part c)"

definition email_pattern :: "string \<Rightarrow> bool" where
  "email_pattern s =
     (\<exists>a b c. s = a @ ''@'' @ b @ ''.'' @ c \<and> email_part a \<and> email_part b \<and> email_part c)"

section \<open>Auxiliary facts about numbers and their digits\<close>

lemma floor_numeral_div: "\<lfloor>numeral a / numeral b :: rat\<rfloor> = numeral a div numeral b"
  by (metis floor_divide_of_int_eq of_int_numeral)

lemma round_half_even_upper: "of_int (round_half_even q) \<le> q + 1 / 2"
proof -
  have "of_int \<lfloor>q\<rfloor> \<le> q" and "q < of_int \<lfloor>q\<rfloor> + 1" by linarith+
  then show ?thesis
    unfolding round_half_even_def Let_def by (auto; linarith)
qed

lemma round_half_even_nonneg: "0 \<le> q \<Longrightarrow> 0 \<le> round_half_even q"
  unfolding round_half_even_def Let_def by auto

lemma round_half_even_of_int: "round_half_even (of_int m) = m"
  unfolding round_half_even_def Let_def by simp

lemma floor_log2_upper:
  assumes "0 < a" "a < 2 ^ w" "0 < w"
  shows "floor_log 2 a \<le> int w - 1"
proof (cases "1 \<le> a")
  case True
  from assms(2) have "\<lfloor>a\<rfloor> < 2 ^ w" by (simp add: floor_less_iff)
  then have "nat \<lfloor>a\<rfloor> < 2 ^ w" by (simp add: nat_less_iff)
  then have "floorlog 2 (nat \<lfloor>a\<rfloor>) \<le> w" by (simp add: floorlog_le_iff)
  with True show ?thesis by (simp add: floor_log_def)
next
  case False
  with assms(3) show ?thesis by (simp add: floor_log_def)
qed

lemma floor_log2_nonneg: "1 \<le> a \<Longrightarrow> 0 \<le> floor_log 2 a"
proof -
  assume a: "1 \<le> a"
  then have "1 \<le> \<lfloor>a\<rfloor>" by simp
  then have "0 < nat \<lfloor>a\<rfloor>" by simp
  then have "floorlog 2 (nat \<lfloor>a\<rfloor>) \<noteq> 0" by (simp add: floorlog_eq_zero_iff)
  with a show ?thesis by (simp add: floor_log_def)
qed

lemma round_double_int:
  assumes "\<bar>n\<bar> < 2 ^ 53"
  shows "round_double (of_int n) = of_int n"
proof (cases "n = 0")
  case True
  then show ?thesis by (simp add: round_double_def)
next
  case False
  define a :: rat where "a = \<bar>of_int n\<bar>"
  define fl where "fl = floor_log 2 a"
  from False have a1: "1 \<le> a" unfolding a_def by (simp flip: of_int_abs)
  have a_int: "a = of_int \<bar>n\<bar>" unfolding a_def by simp
  from assms have "(of_int \<bar>n\<bar> :: rat) < of_int (2 ^ 53)" by (simp only: of_int_less_iff)
  then have "a < 2 ^ 53" unfolding a_int by simp
  with a1 have up: "fl \<le> 52" using floor_log2_upper [of a 53] unfolding fl_def by simp
  from a1 have lo: "0 \<le> fl" unfolding fl_def by (rule floor_log2_nonneg)
  from lo have e: "max fl (- 1022) = fl" by simp
  define j where "j = nat (52 - fl)"
  from up have u: "(2::rat) powi (fl - 52) = 1 / 2 ^ j"
    unfolding j_def by (simp add: power_int_def field_simps flip: nat_diff_distrib)
  have q: "a / (1 / 2 ^ j) = of_int (\<bar>n\<bar> * 2 ^ j)"
    unfolding a_int by simp
  have "round_double (of_int n) = sgn (of_int n) * of_int (round_half_even (a / (2 powi (fl - 52)))) * 2 powi (fl - 52)"
    using False unfolding round_double_def Let_def a_def [symmetric] fl_def [symmetric] e by simp
  also have "\<dots> = sgn (of_int n) * of_int (\<bar>n\<bar> * 2 ^ j) * (1 / 2 ^ j)"
    by (simp only: u q round_half_even_of_int)
  also have "\<dots> = sgn (of_int n) * of_int \<bar>n\<bar>" by simp
  also have "\<dots> = of_int n" by (simp only: of_int_abs sgn_mult_abs)
  finally show ?thesis .
qed

lemma round_double_below_1000:
  assumes "0 \<le> x" "x < 1000 - 1 / 2 ^ 44"
  shows "0 \<le> round_double x \<and> round_double x < 1000"
proof (cases "x = 0")
  case True
  then show ?thesis by (simp add: round_double_def)
next
  case False
  with assms(1) have pos: "0 < x" by simp
  define e where "e = max (floor_log 2 x) (- 1022)"
  define u :: rat where "u = 2 powi (e - 52)"
  have "x < 2 ^ 10" using assms(2) by simp
  with pos have "floor_log 2 x \<le> 9" using floor_log2_upper [of x 10] by simp
  then have "e \<le> 9" unfolding e_def by simp
  then have "u \<le> 2 powi (- 43)" unfolding u_def by (intro power_int_increasing) simp_all
  then have u_le: "u \<le> 1 / 2 ^ 43" by simp
  have u_pos: "0 < u" unfolding u_def by simp
  from pos have abs: "\<bar>x\<bar> = x" and sg: "sgn x = 1" by simp_all
  have rd: "round_double x = of_int (round_half_even (x / u)) * u"
    using False unfolding round_double_def Let_def abs sg e_def [symmetric] u_def [symmetric] by simp
  from pos u_pos have "0 \<le> x / u" by simp
  then have "0 \<le> round_half_even (x / u)" by (rule round_half_even_nonneg)
  with u_pos have lower: "0 \<le> round_double x" unfolding rd by simp
  have "of_int (round_half_even (x / u)) * u \<le> (x / u + 1 / 2) * u"
    using round_half_even_upper [of "x / u"] u_pos by (simp only: mult_le_cancel_right_pos)
  also have "\<dots> = x + u / 2" using u_pos by (simp add: field_simps)
  also have "\<dots> \<le> x + 1 / 2 ^ 44" using u_le by simp
  also have "\<dots> < 1000" using assms(2) by simp
  finally have "round_double x < 1000" unfolding rd .
  with lower show ?thesis by simp
qed

lemma double_below_one:
  assumes "is_double x" "x < 1"
  shows "x \<le> 1 - 1 / 2 ^ 53"
proof -
  from assms(1) obtain m e where m: "\<bar>m\<bar> < 2 ^ 53" and e: "- 1074 \<le> e"
    and x: "x = of_int m * 2 powi e"
    unfolding is_double_def by blast
  show ?thesis
  proof (cases "- 53 \<le> e")
    case True
    define k where "k = nat (e + 53)"
    have "(2::rat) powi e * 2 ^ 53 = 2 powi (e + 53)" by (simp add: power_int_add)
    also have "\<dots> = 2 ^ k" using True unfolding k_def by (simp add: power_int_def)
    finally have p: "(2::rat) powi e * 2 ^ 53 = 2 ^ k" .
    have "x * 2 ^ 53 = of_int m * (2 powi e * 2 ^ 53)" unfolding x by simp
    also have "\<dots> = of_int (m * 2 ^ k)" unfolding p by simp
    finally have xi: "x * 2 ^ 53 = of_int (m * 2 ^ k)" .
    from assms(2) have "x * 2 ^ 53 < 2 ^ 53" by simp
    then have "(of_int (m * 2 ^ k) :: rat) < of_int (2 ^ 53)" unfolding xi by simp
    then have "m * 2 ^ k < 2 ^ 53" by (simp only: of_int_less_iff)
    then have "m * 2 ^ k \<le> 2 ^ 53 - 1" by simp
    then have "(of_int (m * 2 ^ k) :: rat) \<le> of_int (2 ^ 53 - 1)" by (simp only: of_int_le_iff)
    then have "x * 2 ^ 53 \<le> 2 ^ 53 - 1" unfolding xi by simp
    then show ?thesis by (simp add: field_simps)
  next
    case False
    then have "e \<le> - 54" by simp
    then have "(2::rat) powi e \<le> 2 powi (- 54)" by (intro power_int_increasing) simp_all
    then have pe: "(2::rat) powi e \<le> 1 / 2 ^ 54" by simp
    have "m \<le> \<bar>m\<bar>" by simp
    with m have "m \<le> 2 ^ 53" by simp
    then have "(of_int m :: rat) \<le> of_int (2 ^ 53)" by (simp only: of_int_le_iff)
    then have mi: "(of_int m :: rat) \<le> 2 ^ 53" by simp
    have "x \<le> 2 ^ 53 * 2 powi e" unfolding x using mi by (simp add: mult_right_mono)
    also have "\<dots> \<le> 2 ^ 53 * (1 / 2 ^ 54)" using pe by (intro mult_left_mono) simp_all
    also have "\<dots> \<le> 1 - 1 / 2 ^ 53" by simp
    finally show ?thesis .
  qed
qed

lemma generateId_offset:
  assumes "is_double rnd" "0 \<le> rnd" "rnd < 1" "\<bar>now\<bar> \<le> 8640000000000000"
  shows "0 \<le> generateId now rnd - now \<and> generateId now rnd - now < 1000"
proof -
  define k where "k = \<lfloor>round_double (rnd * 1000)\<rfloor>"
  from assms(1,3) have "rnd \<le> 1 - 1 / 2 ^ 53" by (rule double_below_one)
  then have "rnd * 1000 \<le> 1000 - 1000 / 2 ^ 53" by simp
  also have "\<dots> < 1000 - 1 / 2 ^ 44" by simp
  finally have upper: "rnd * 1000 < 1000 - 1 / 2 ^ 44" .
  from assms(2) have "0 \<le> rnd * 1000" by simp
  then have "0 \<le> round_double (rnd * 1000) \<and> round_double (rnd * 1000) < 1000"
    using upper by (rule round_double_below_1000)
  then have k: "0 \<le> k" "k < 1000" unfolding k_def by (simp_all add: floor_less_iff)
  with assms(4) have "\<bar>now + k\<bar> < 2 ^ 53" by simp
  then have "round_double (of_int (now + k)) = of_int (now + k)" by (rule round_double_int)
  then have "generateId now rnd = now + k"
    unfolding generateId_def k_def [symmetric] by (simp flip: of_int_add)
  with k show ?thesis by simp
qed

lemma digit_cases:
  "d < 10 \<Longrightarrow>
   d = 0 \<or> d = 1 \<or> d = 2 \<or> d = 3 \<or> d = 4 \<or> d = 5 \<or> d = 6 \<or> d = 7 \<or> d = 8 \<or> d = (9::nat)"
  by arith

lemma digit_char_inj:
  assumes "a < 10" "b < 10" "digit_char a = digit_char b"
  shows "a = b"
  using digit_cases [OF assms(1)] digit_cases [OF assms(2)] assms(3)
  by (elim disjE) (simp_all add: digit_char_def)

lemma digit_char_not_minus:
  assumes "d < 10"
  shows "digit_char d \<noteq> CHR ''-''"
  using digit_cases [OF assms] by (elim disjE) (simp_all add: digit_char_def)

lemma digits_small: "n < 10 \<Longrightarrow> digits n = [digit_char n]"
  by (simp add: digits.simps)

lemma digits_large: "\<not> n < 10 \<Longrightarrow> digits n = digits (n div 10) @ [digit_char (n mod 10)]"
  by (subst digits.simps) simp

lemma digits_not_Nil: "digits n \<noteq> []"
  by (cases "n < 10") (simp_all add: digits_small digits_large)

lemma digits_no_minus: "CHR ''-'' \<notin> set (digits n)"
proof (induction n rule: digits.induct)
  case (1 n)
  show ?case
  proof (cases "n < 10")
    case True
    then show ?thesis using digit_char_not_minus [of n] by (simp add: digits_small)
  next
    case False
    have "n mod 10 < 10" by simp
    then have "digit_char (n mod 10) \<noteq> CHR ''-''" by (rule digit_char_not_minus)
    with False "1.IH" show ?thesis by (simp add: digits_large)
  qed
qed

lemma digits_inj: "digits n = digits m \<Longrightarrow> n = m"
proof (induction n arbitrary: m rule: digits.induct)
  case (1 n)
  show ?case
  proof (cases "n < 10")
    case n: True
    show ?thesis
    proof (cases "m < 10")
      case True
      with n "1.prems" show ?thesis by (simp add: digits_small digit_char_inj)
    next
      case False
      with n "1.prems" digits_not_Nil [of "m div 10"] show ?thesis
        by (simp add: digits_small digits_large)
    qed
  next
    case n: False
    show ?thesis
    proof (cases "m < 10")
      case True
      with n "1.prems" digits_not_Nil [of "n div 10"] show ?thesis
        by (simp add: digits_small digits_large)
    next
      case False
      with n "1.prems" have eq: "digits (n div 10) = digits (m div 10)"
        and last: "digit_char (n mod 10) = digit_char (m mod 10)"
        by (simp_all add: digits_large)
      from n eq have "n div 10 = m div 10" by (rule "1.IH")
      moreover have "n mod 10 = m mod 10"
        by (rule digit_char_inj [OF _ _ last]) simp_all
      ultimately show ?thesis by (metis div_mult_mod_eq)
    qed
  qed
qed

lemma show_int_inj: "show_int a = show_int b \<Longrightarrow> a = b"
proof -
  assume eq: "show_int a = show_int b"
  show ?thesis
  proof (cases "a < 0")
    case a: True
    show ?thesis
    proof (cases "b < 0")
      case True
      with a eq have "digits (nat (- a)) = digits (nat (- b))" by (simp add: show_int_def)
      then have "nat (- a) = nat (- b)" by (rule digits_inj)
      with a True show ?thesis by simp
    next
      case False
      with a eq have "CHR ''-'' # digits (nat (- a)) = digits (nat b)" by (simp add: show_int_def)
      then have "CHR ''-'' \<in> set (digits (nat b))" by (metis list.set_intros(1))
      then show ?thesis by (simp add: digits_no_minus)
    qed
  next
    case a: False
    show ?thesis
    proof (cases "b < 0")
      case True
      with a eq have "digits (nat a) = CHR ''-'' # digits (nat (- b))" by (simp add: show_int_def)
      then have "CHR ''-'' \<in> set (digits (nat a))" by (metis list.set_intros(1))
      then show ?thesis by (simp add: digits_no_minus)
    next
      case False
      with a eq have "digits (nat a) = digits (nat b)" by (simp add: show_int_def)
      then have "nat a = nat b" by (rule digits_inj)
      with a False show ?thesis by simp
    qed
  qed
qed

lemma digit_char_digit:
  assumes "d < 10"
  shows "digit_char d \<in> set ''0123456789''"
  using digit_cases [OF assms] by (elim disjE) (simp_all add: digit_char_def)

lemma digits_chars: "set (digits n) \<subseteq> set ''0123456789''"
proof (induction n rule: digits.induct)
  case (1 n)
  show ?case
  proof (cases "n < 10")
    case True
    then show ?thesis using digit_char_digit [of n] by (simp add: digits_small)
  next
    case False
    have "digit_char (n mod 10) \<in> set ''0123456789''" by (rule digit_char_digit) simp
    with False "1.IH" show ?thesis by (simp add: digits_large)
  qed
qed

lemma indexed_keys: "k \<in> fst ` set (indexed xs) \<Longrightarrow> set k \<subseteq> set ''0123456789''"
proof -
  assume "k \<in> fst ` set (indexed xs)"
  then have "k \<in> set (map digits [0..<length xs])"
    unfolding indexed_def by (auto dest: set_zip_leftD)
  then obtain i where "k = digits i" by auto
  then show ?thesis by (simp only: digits_chars)
qed

lemma own_array_field:
  assumes "\<exists>c\<in>set k. c \<notin> set ''0123456789''" and "k \<noteq> ''length''"
  shows "own (JArr xs) k = None"
proof -
  from assms(1) obtain c where c: "c \<in> set k" and other: "c \<notin> set ''0123456789''"
    by (rule bexE)
  have "k \<notin> fst ` set (indexed xs)"
  proof
    assume "k \<in> fst ` set (indexed xs)"
    then have "set k \<subseteq> set ''0123456789''" by (rule indexed_keys)
    then have "c \<in> set ''0123456789''" using c by (rule subsetD)
    with other show False by (rule notE)
  qed
  then have none: "map_of (indexed xs) k = None" by (simp only: map_of_eq_None_iff not_False_eq_True)
  show ?thesis by (simp only: own.simps assms(2) none if_False)
qed

lemma format_decimal_no_at: "CHR ''@'' \<notin> set (format_decimal c)"
proof -
  obtain k s n where c: "c = (k, s, n)" by (cases c)
  define ds where "ds = digits (nat s)"
  have digit: "CHR ''@'' \<notin> set (digits m)" for m
    using digits_chars [of m] by auto
  then have ds: "CHR ''@'' \<notin> set ds" unfolding ds_def .
  have ne: "ds \<noteq> []" unfolding ds_def by (rule digits_not_Nil)
  have "hd ds \<in> set ds" using ne by (rule hd_in_set)
  with ds have p1: "hd ds \<noteq> CHR ''@''" by metis
  have p2: "CHR ''@'' \<notin> set (tl ds)" using ds list.set_sel(2) [OF ne] by metis
  from ds have cut: "CHR ''@'' \<notin> set (take i ds)" "CHR ''@'' \<notin> set (drop i ds)" for i
    by (auto dest: in_set_takeD in_set_dropD)
  define ex where "ex = (if n - 1 < 0 then ''e-'' else ''e+'') @ digits (nat \<bar>n - 1\<bar>)"
  have ex: "CHR ''@'' \<notin> set ex" unfolding ex_def using digit by simp
  have "format_decimal c =
        (if int k \<le> n \<and> n \<le> 21 then ds @ replicate (nat (n - int k)) CHR ''0''
        else if 0 < n \<and> n \<le> 21 then take (nat n) ds @ ''.'' @ drop (nat n) ds
        else if - 6 < n \<and> n \<le> 0 then ''0.'' @ replicate (nat (- n)) CHR ''0'' @ ds
        else if k = 1 then ds @ ex else hd ds # ''.'' @ tl ds @ ex)"
    unfolding c format_decimal_def Let_def prod.case ds_def ex_def ..
  then show ?thesis using ds p1 p2 cut ex by simp
qed

lemma num_to_string_no_at: "CHR ''@'' \<notin> set (num_to_string n)"
  by (cases n) (simp_all add: positive_to_string_def format_decimal_no_at)

text \<open>The double 1.5 is written \<^verbatim>\<open>1.5\<close>: one digit is not enough, and 15 is the only choice of two.\<close>

lemma round_double_three_halves: "round_double (3 / 2) * 2 = 3"
  unfolding round_double_def round_half_even_def Let_def
  by (simp add: floor_log_def compute_floorlog floor_numeral_div)

lemma round_double_eight_fifths: "round_double (8 / 5) * 2 \<noteq> 3"
  unfolding round_double_def round_half_even_def Let_def
  by (simp add: floor_log_def compute_floorlog floor_numeral_div)

lemma floor_log_three_halves: "floor_log 10 (3 / 2) + 1 = 1"
  by (simp add: floor_log_def compute_floorlog floor_numeral_div)

lemma decimal_candidates_one_digit: "decimal_candidates (3 / 2) 1 1 = []"
  unfolding decimal_candidates_def Let_def
  using round_double_int [of 1] round_double_int [of 2]
  by (simp add: floor_numeral_div)

lemma decimal_candidates_two_digits: "decimal_candidates (3 / 2) 1 (Suc 1) = [(15, 1)]"
  unfolding decimal_candidates_def Let_def
  by (simp add: floor_numeral_div round_double_three_halves round_double_eight_fifths)

lemma shortest_decimal_three_halves: "shortest_decimal (3 / 2) 1 1 = (2, 15, 1)"
proof -
  have "shortest_decimal (3 / 2) 1 1 = shortest_decimal (3 / 2) 1 (Suc 1)"
    by (subst shortest_decimal.simps)
       (simp only: decimal_candidates_one_digit closest.simps option.case, simp)
  also have "\<dots> = (2, 15, 1)"
    by (subst shortest_decimal.simps)
       (simp only: decimal_candidates_two_digits closest.simps option.case prod.case, simp)
  finally show ?thesis .
qed

lemma positive_to_string_three_halves: "positive_to_string (3 / 2) = ''1.5''"
  unfolding positive_to_string_def floor_log_three_halves shortest_decimal_three_halves
    format_decimal_def
  by (simp add: digits.simps digit_char_def)

section \<open>Properties of the validators\<close>

subsection \<open>Auxiliary facts\<close>

lemma object_check:
  "(truthy v \<and> typeof v = ''object'') = ((\<exists>ps. v = JObj ps) \<or> (\<exists>xs. v = JArr xs))"
  by (cases v) simp_all

lemma own_prop_None: "(own_prop ps k = None) = (k \<notin> fst ` set ps)"
  by (simp add: own_prop_def map_of_eq_None_iff)

lemma own_prop_append:
  "own_prop (ps @ qs) k = (case own_prop qs k of Some v \<Rightarrow> Some v | None \<Rightarrow> own_prop ps k)"
  by (simp add: own_prop_def map_add_def split: option.split)

lemma js_in_field:
  "k \<notin> set object_prototype_keys \<Longrightarrow> js_in k (JObj ps) = (k \<in> fst ` set ps)"
  by (simp add: js_in_def own_prop_None)

lemma get_member_field:
  "k \<notin> set object_prototype_keys \<Longrightarrow>
   get_member (JObj ps) k = Data (case own_prop ps k of Some v \<Rightarrow> v | None \<Rightarrow> JUndefined)"
  by (simp add: get_member_def split: option.splits)

lemma not_object_cases:
  "(\<forall>ps. v \<noteq> JObj ps) \<and> (\<forall>xs. v \<noteq> JArr xs) \<Longrightarrow> \<not> truthy v \<or> typeof v \<noteq> ''object''"
  using object_check [of v] by blast

lemma validatePost_JArr:
  "validatePost (JArr xs) = Inl (Error ''Post missing required fields: id, userId, title, body'')"
  by (simp add: validatePost_def js_in_def own_array_field array_prototype_keys_def
      object_prototype_keys_def del: own.simps)

lemma validateUser_JArr:
  "validateUser (JArr xs) = Inl (Error ''User missing required fields: id, name, username, email'')"
  by (simp add: validateUser_def js_in_def own_array_field array_prototype_keys_def
      object_prototype_keys_def del: own.simps)

lemma validateComment_JArr:
  "validateComment (JArr xs)
     = Inl (Error ''Comment missing required fields: id, postId, name, email, body'')"
  by (simp add: validateComment_def js_in_def own_array_field array_prototype_keys_def
      object_prototype_keys_def del: own.simps)

lemma validateUser_JObj:
  "validateUser (JObj ps) =
     (let missing = filter (\<lambda>f. f \<notin> fst ` set ps) [''id'', ''name'', ''username'', ''email'']
      in if missing \<noteq> []
         then Inl (Error (''User missing required fields: '' @ join '', '' missing))
         else case emailRegex_test (get_member (JObj ps) ''email'') of
                Inl e \<Rightarrow> Inl e
              | Inr matched \<Rightarrow>
                  if matched then Inr () else Inl (Error ''User email must be valid format''))"
  by (simp add: validateUser_def Let_def js_in_field object_prototype_keys_def split: sum.splits)

lemma validateComment_JObj:
  "validateComment (JObj ps) =
     (let missing = filter (\<lambda>f. f \<notin> fst ` set ps) [''id'', ''postId'', ''name'', ''email'', ''body'']
      in if missing = [] then Inr ()
         else Inl (Error (''Comment missing required fields: '' @ join '', '' missing)))"
  by (simp add: validateComment_def Let_def js_in_field object_prototype_keys_def)

text \<open>
  Claim C5. An object that has all five keys \<^verbatim>\<open>id\<close>, \<^verbatim>\<open>postId\<close>, \<^verbatim>\<open>name\<close>,
  \<^verbatim>\<open>email\<close>, \<^verbatim>\<open>body\<close> passes \<^verbatim>\<open>validateComment\<close> whatever the values of the fields
  are (the email \<^verbatim>\<open>x\<close> passes); an object that lacks one of the keys fails (an array is
  such an object: it lacks all five), and so does a value that is not an object. These are
  the only failures.
\<close>

theorem validateComment_presence_only:
  "({''id'', ''postId'', ''name'', ''email'', ''body''} \<subseteq> fst ` set ps
      \<longrightarrow> validateComment (JObj ps) = Inr ())
   \<and> (\<not> {''id'', ''postId'', ''name'', ''email'', ''body''} \<subseteq> fst ` set ps
      \<longrightarrow> (\<exists>msg. validateComment (JObj ps) = Inl (Error msg)))
   \<and> ((\<forall>qs. c \<noteq> JObj qs) \<and> (\<forall>xs. c \<noteq> JArr xs)
      \<longrightarrow> validateComment c = Inl (Error ''Comment must be an object''))
   \<and> validateComment (JArr xs)
       = Inl (Error ''Comment missing required fields: id, postId, name, email, body'')
   \<and> validateComment (JObj [(''id'', JNum (Fin 1)), (''postId'', JNum (Fin 1)),
        (''name'', JStr ''n''), (''email'', JStr ''x''), (''body'', JStr ''y'')]) = Inr ()"
proof (intro conjI impI)
  assume "{''id'', ''postId'', ''name'', ''email'', ''body''} \<subseteq> fst ` set ps"
  then show "validateComment (JObj ps) = Inr ()"
    by (simp add: validateComment_JObj)
next
  assume "\<not> {''id'', ''postId'', ''name'', ''email'', ''body''} \<subseteq> fst ` set ps"
  then show "\<exists>msg. validateComment (JObj ps) = Inl (Error msg)"
    by (simp add: validateComment_JObj Let_def filter_empty_conv del: filter.simps)
next
  assume "(\<forall>qs. c \<noteq> JObj qs) \<and> (\<forall>xs. c \<noteq> JArr xs)"
  then have "\<not> truthy c \<or> typeof c \<noteq> ''object''" by (rule not_object_cases)
  then show "validateComment c = Inl (Error ''Comment must be an object'')"
    by (auto simp add: validateComment_def)
next
  show "validateComment (JArr xs)
       = Inl (Error ''Comment missing required fields: id, postId, name, email, body'')"
    by (rule validateComment_JArr)
next
  show "validateComment (JObj [(''id'', JNum (Fin 1)), (''postId'', JNum (Fin 1)),
        (''name'', JStr ''n''), (''email'', JStr ''x''), (''body'', JStr ''y'')]) = Inr ()"
    by (simp add: validateComment_JObj)
qed

text \<open>
  C5 at a comment whose fields all have unexpected types, at a comment with only an
  \<^verbatim>\<open>id\<close>, at \<^verbatim>\<open>null\<close> and at an array of two comments.
\<close>

theorem validateComment_presence_only_witness:
  "validateComment (JObj [(''body'', JNull), (''email'', JBool False), (''name'', JNum NaN),
      (''postId'', JStr ''p''), (''id'', JObj [])]) = Inr ()
   \<and> (\<exists>msg. validateComment (JObj [(''id'', JNum (Fin 1))]) = Inl (Error msg))
   \<and> validateComment JNull = Inl (Error ''Comment must be an object'')
   \<and> validateComment (JArr [JObj [(''id'', JNum (Fin 1))], JObj [(''id'', JNum (Fin 2))]])
       = Inl (Error ''Comment missing required fields: id, postId, name, email, body'')"
proof -
  have a: "{''id'', ''postId'', ''name'', ''email'', ''body''} \<subseteq>
      fst ` set [(''body'', JNull), (''email'', JBool False), (''name'', JNum NaN),
        (''postId'', JStr ''p''), (''id'', JObj [])]"
    by simp
  have b: "\<not> {''id'', ''postId'', ''name'', ''email'', ''body''} \<subseteq>
      fst ` set [(''id'', JNum (Fin 1))]"
    by simp
  have c: "(\<forall>qs. JNull \<noteq> JObj qs) \<and> (\<forall>xs. JNull \<noteq> JArr xs)" by simp
  from a validateComment_presence_only
    [where ps = "[(''body'', JNull), (''email'', JBool False), (''name'', JNum NaN),
          (''postId'', JStr ''p''), (''id'', JObj [])]" and c = JNull and xs = "[]"]
  have 1: "validateComment (JObj [(''body'', JNull), (''email'', JBool False), (''name'', JNum NaN),
      (''postId'', JStr ''p''), (''id'', JObj [])]) = Inr ()"
    by blast
  from b validateComment_presence_only
    [where ps = "[(''id'', JNum (Fin 1))]" and c = JNull and xs = "[]"]
  have 2: "\<exists>msg. validateComment (JObj [(''id'', JNum (Fin 1))]) = Inl (Error msg)"
    by blast
  from c validateComment_presence_only [where ps = "[]" and c = JNull and xs = "[]"]
  have 3: "validateComment JNull = Inl (Error ''Comment must be an object'')"
    by blast
  from validateComment_presence_only
    [where ps = "[]" and c = JNull
       and xs = "[JObj [(''id'', JNum (Fin 1))], JObj [(''id'', JNum (Fin 2))]]"]
  have 4: "validateComment (JArr [JObj [(''id'', JNum (Fin 1))], JObj [(''id'', JNum (Fin 2))]])
       = Inl (Error ''Comment missing required fields: id, postId, name, email, body'')"
    by blast
  from 1 2 3 4 show ?thesis by blast
qed

lemma trim_blank: "(trim s = []) = (\<forall>c\<in>set s. is_space c)"
proof
  assume "trim s = []"
  then have all: "\<forall>c\<in>set (dropWhile is_space s). is_space c"
    by (simp add: trim_def dropWhile_eq_Nil_conv)
  have "dropWhile is_space s = []"
  proof (rule ccontr)
    assume ne: "dropWhile is_space s \<noteq> []"
    then have "\<not> is_space (hd (dropWhile is_space s))" by (rule hd_dropWhile)
    moreover from ne have "hd (dropWhile is_space s) \<in> set (dropWhile is_space s)" by simp
    ultimately show False using all by blast
  qed
  then show "\<forall>c\<in>set s. is_space c" by (simp add: dropWhile_eq_Nil_conv)
next
  assume "\<forall>c\<in>set s. is_space c"
  then have "dropWhile is_space s = []" by (simp add: dropWhile_eq_Nil_conv)
  then show "trim s = []" by (simp only: trim_def rev.simps dropWhile.simps)
qed

lemma validatePost_JObj:
  "validatePost (JObj ps) =
     (let missing = filter (\<lambda>f. f \<notin> fst ` set ps) [''id'', ''userId'', ''title'', ''body'']
      in if missing \<noteq> []
         then Inl (Error (''Post missing required fields: '' @ join '', '' missing))
         else if not_positive_number (get_member (JObj ps) ''id'')
         then Inl (Error ''Post ID must be a positive number'')
         else if not_positive_number (get_member (JObj ps) ''userId'')
         then Inl (Error ''User ID must be a positive number'')
         else if not_nonempty_string (get_member (JObj ps) ''title'')
         then Inl (Error ''Post title must be a non-empty string'')
         else if not_nonempty_string (get_member (JObj ps) ''body'')
         then Inl (Error ''Post body must be a non-empty string'')
         else Inr ())"
  by (simp add: validatePost_def Let_def js_in_field object_prototype_keys_def)

lemma post_fields_present:
  "(filter (\<lambda>f. f \<notin> fst ` set ps) [''id'', ''userId'', ''title'', ''body''] = []) =
   ({''id'', ''userId'', ''title'', ''body''} \<subseteq> fst ` set ps)"
  by (auto simp add: filter_empty_conv simp del: filter.simps)

lemma validatePost_succeeds_iff:
  "(validatePost v = Inr ()) =
     (\<exists>ps n m s t. v = JObj ps
        \<and> own_prop ps ''id'' = Some (JNum n) \<and> \<not> num_le_zero n
        \<and> own_prop ps ''userId'' = Some (JNum m) \<and> \<not> num_le_zero m
        \<and> own_prop ps ''title'' = Some (JStr s) \<and> (\<exists>c\<in>set s. \<not> is_space c)
        \<and> own_prop ps ''body'' = Some (JStr t) \<and> (\<exists>c\<in>set t. \<not> is_space c))"
proof (cases "\<exists>ps. v = JObj ps")
  case False
  have "validatePost v \<noteq> Inr ()"
  proof (cases "\<exists>xs. v = JArr xs")
    case True
    then show ?thesis by (auto simp add: validatePost_JArr)
  next
    case no_array: False
    with False have "\<not> truthy v \<or> typeof v \<noteq> ''object''" using object_check [of v] by blast
    then have "validatePost v = Inl (Error ''Post must be an object'')"
      by (auto simp add: validatePost_def)
    then show ?thesis by simp
  qed
  with False show ?thesis by auto
next
  case True
  then obtain ps where v: "v = JObj ps" by blast
  have number: "(\<not> not_positive_number (get_member (JObj ps) k)) =
      (\<exists>n. own_prop ps k = Some (JNum n) \<and> \<not> num_le_zero n)"
    if "k \<notin> set object_prototype_keys" for k
    using that
    by (auto simp add: get_member_def not_positive_number_def
        split: option.splits jsval.splits)
  have str: "(\<not> not_nonempty_string (get_member (JObj ps) k)) =
      (\<exists>s. own_prop ps k = Some (JStr s) \<and> (\<exists>c\<in>set s. \<not> is_space c))"
    if "k \<notin> set object_prototype_keys" for k
    using that
    by (auto simp add: get_member_def not_nonempty_string_def trim_blank
        split: option.splits jsval.splits)
  have keys: "''id'' \<notin> set object_prototype_keys" "''userId'' \<notin> set object_prototype_keys"
    "''title'' \<notin> set object_prototype_keys" "''body'' \<notin> set object_prototype_keys"
    by (simp_all add: object_prototype_keys_def)
  show ?thesis
  proof (cases "{''id'', ''userId'', ''title'', ''body''} \<subseteq> fst ` set ps")
    case False
    then have "validatePost (JObj ps) \<noteq> Inr ()"
      unfolding validatePost_JObj Let_def post_fields_present by simp
    moreover from False have "own_prop ps ''id'' = None \<or> own_prop ps ''userId'' = None
        \<or> own_prop ps ''title'' = None \<or> own_prop ps ''body'' = None"
      by (auto simp add: own_prop_None)
    ultimately show ?thesis using v by auto
  next
    case True
    then have "(validatePost (JObj ps) = Inr ()) =
        (\<not> not_positive_number (get_member (JObj ps) ''id'')
         \<and> \<not> not_positive_number (get_member (JObj ps) ''userId'')
         \<and> \<not> not_nonempty_string (get_member (JObj ps) ''title'')
         \<and> \<not> not_nonempty_string (get_member (JObj ps) ''body''))"
      unfolding validatePost_JObj Let_def post_fields_present by simp
    then show ?thesis
      unfolding number [OF keys(1)] number [OF keys(2)] str [OF keys(3)] str [OF keys(4)]
      using v by auto
  qed
qed

lemmas eval_field =
  get_member_def own_prop_def object_prototype_keys_def not_positive_number_def
  not_nonempty_string_def trim_def is_space_def

text \<open>
  Claim C7. An object that lacks required fields fails with one error whose message lists
  all the missing fields, in the order \<^verbatim>\<open>id\<close>, \<^verbatim>\<open>userId\<close>, \<^verbatim>\<open>title\<close>, \<^verbatim>\<open>body\<close>.
  When all four are present, only the first violated check is reported, the checks being
  made in that same order. The object \<^verbatim>\<open>{id:1, userId:1, title:"a", body:"b"}\<close> passes, and
  without any one of its fields it fails with a message that names the field.
\<close>

theorem validatePost_failure_order:
  "(\<not> {''id'', ''userId'', ''title'', ''body''} \<subseteq> fst ` set ps \<longrightarrow>
      validatePost (JObj ps) =
        Inl (Error (''Post missing required fields: '' @
          join '', '' (filter (\<lambda>f. f \<notin> fst ` set ps) [''id'', ''userId'', ''title'', ''body'']))))
   \<and> ({''id'', ''userId'', ''title'', ''body''} \<subseteq> fst ` set ps \<longrightarrow>
      validatePost (JObj ps) =
        (if not_positive_number (get_member (JObj ps) ''id'')
         then Inl (Error ''Post ID must be a positive number'')
         else if not_positive_number (get_member (JObj ps) ''userId'')
         then Inl (Error ''User ID must be a positive number'')
         else if not_nonempty_string (get_member (JObj ps) ''title'')
         then Inl (Error ''Post title must be a non-empty string'')
         else if not_nonempty_string (get_member (JObj ps) ''body'')
         then Inl (Error ''Post body must be a non-empty string'')
         else Inr ()))
   \<and> validatePost (JObj [(''id'', JNum (Fin 1)), (''userId'', JNum (Fin 1)),
        (''title'', JStr ''a''), (''body'', JStr ''b'')]) = Inr ()
   \<and> validatePost (JObj [(''userId'', JNum (Fin 1)), (''title'', JStr ''a''), (''body'', JStr ''b'')])
       = Inl (Error ''Post missing required fields: id'')
   \<and> validatePost (JObj [(''id'', JNum (Fin 1)), (''title'', JStr ''a''), (''body'', JStr ''b'')])
       = Inl (Error ''Post missing required fields: userId'')
   \<and> validatePost (JObj [(''id'', JNum (Fin 1)), (''userId'', JNum (Fin 1)), (''body'', JStr ''b'')])
       = Inl (Error ''Post missing required fields: title'')
   \<and> validatePost (JObj [(''id'', JNum (Fin 1)), (''userId'', JNum (Fin 1)), (''title'', JStr ''a'')])
       = Inl (Error ''Post missing required fields: body'')
   \<and> validatePost (JObj [(''title'', JStr ''a'')])
       = Inl (Error ''Post missing required fields: id, userId, body'')
   \<and> validatePost (JObj [(''id'', JNum (Fin (- 1))), (''userId'', JStr ''1''),
        (''title'', JStr ''   ''), (''body'', JNull)])
       = Inl (Error ''Post ID must be a positive number'')
   \<and> validatePost (JObj [(''id'', JNum (Fin 1)), (''userId'', JStr ''1''),
        (''title'', JStr ''   ''), (''body'', JNull)])
       = Inl (Error ''User ID must be a positive number'')
   \<and> validatePost (JObj [(''id'', JNum (Fin 1)), (''userId'', JNum (Fin 1)),
        (''title'', JStr ''   ''), (''body'', JNull)])
       = Inl (Error ''Post title must be a non-empty string'')
   \<and> validatePost (JObj [(''id'', JNum (Fin 1)), (''userId'', JNum (Fin 1)),
        (''title'', JStr ''a''), (''body'', JNull)])
       = Inl (Error ''Post body must be a non-empty string'')"
proof -
  have missing: "\<not> {''id'', ''userId'', ''title'', ''body''} \<subseteq> fst ` set ps \<longrightarrow>
      validatePost (JObj ps) =
        Inl (Error (''Post missing required fields: '' @
          join '', '' (filter (\<lambda>f. f \<notin> fst ` set ps) [''id'', ''userId'', ''title'', ''body''])))"
    unfolding validatePost_JObj Let_def post_fields_present by simp
  have typed: "{''id'', ''userId'', ''title'', ''body''} \<subseteq> fst ` set ps \<longrightarrow>
      validatePost (JObj ps) =
        (if not_positive_number (get_member (JObj ps) ''id'')
         then Inl (Error ''Post ID must be a positive number'')
         else if not_positive_number (get_member (JObj ps) ''userId'')
         then Inl (Error ''User ID must be a positive number'')
         else if not_nonempty_string (get_member (JObj ps) ''title'')
         then Inl (Error ''Post title must be a non-empty string'')
         else if not_nonempty_string (get_member (JObj ps) ''body'')
         then Inl (Error ''Post body must be a non-empty string'')
         else Inr ())"
    unfolding validatePost_JObj Let_def post_fields_present by simp
  have e0: "validatePost (JObj [(''id'', JNum (Fin 1)), (''userId'', JNum (Fin 1)),
        (''title'', JStr ''a''), (''body'', JStr ''b'')]) = Inr ()"
    by (simp add: validatePost_JObj eval_field)
  have e1: "validatePost (JObj [(''userId'', JNum (Fin 1)), (''title'', JStr ''a''), (''body'', JStr ''b'')])
       = Inl (Error ''Post missing required fields: id'')"
    by (simp add: validatePost_JObj)
  have e2: "validatePost (JObj [(''id'', JNum (Fin 1)), (''title'', JStr ''a''), (''body'', JStr ''b'')])
       = Inl (Error ''Post missing required fields: userId'')"
    by (simp add: validatePost_JObj)
  have e3: "validatePost (JObj [(''id'', JNum (Fin 1)), (''userId'', JNum (Fin 1)), (''body'', JStr ''b'')])
       = Inl (Error ''Post missing required fields: title'')"
    by (simp add: validatePost_JObj)
  have e4: "validatePost (JObj [(''id'', JNum (Fin 1)), (''userId'', JNum (Fin 1)), (''title'', JStr ''a'')])
       = Inl (Error ''Post missing required fields: body'')"
    by (simp add: validatePost_JObj)
  have e5: "validatePost (JObj [(''title'', JStr ''a'')])
       = Inl (Error ''Post missing required fields: id, userId, body'')"
    by (simp add: validatePost_JObj)
  have f1: "validatePost (JObj [(''id'', JNum (Fin (- 1))), (''userId'', JStr ''1''),
        (''title'', JStr ''   ''), (''body'', JNull)])
       = Inl (Error ''Post ID must be a positive number'')"
    by (simp add: validatePost_JObj eval_field)
  have f2: "validatePost (JObj [(''id'', JNum (Fin 1)), (''userId'', JStr ''1''),
        (''title'', JStr ''   ''), (''body'', JNull)])
       = Inl (Error ''User ID must be a positive number'')"
    by (simp add: validatePost_JObj eval_field)
  have f3: "validatePost (JObj [(''id'', JNum (Fin 1)), (''userId'', JNum (Fin 1)),
        (''title'', JStr ''   ''), (''body'', JNull)])
       = Inl (Error ''Post title must be a non-empty string'')"
    by (simp add: validatePost_JObj eval_field)
  have f4: "validatePost (JObj [(''id'', JNum (Fin 1)), (''userId'', JNum (Fin 1)),
        (''title'', JStr ''a''), (''body'', JNull)])
       = Inl (Error ''Post body must be a non-empty string'')"
    by (simp add: validatePost_JObj eval_field)
  from missing typed e0 e1 e2 e3 e4 e5 f1 f2 f3 f4 show ?thesis by blast
qed

text \<open>
  The two general statements of C7 at concrete objects.
\<close>

theorem validatePost_failure_order_witness:
  "validatePost (JObj [(''body'', JStr ''b''), (''junk'', JNull)])
     = Inl (Error ''Post missing required fields: id, userId, title'')
   \<and> validatePost (JObj [(''body'', JStr ''b''), (''title'', JStr ''t''),
        (''userId'', JNum (Fin 0)), (''id'', JNum (Fin 7))])
     = Inl (Error ''User ID must be a positive number'')"
proof -
  have a: "\<not> {''id'', ''userId'', ''title'', ''body''} \<subseteq> fst ` set [(''body'', JStr ''b''), (''junk'', JNull)]"
    by simp
  have b: "{''id'', ''userId'', ''title'', ''body''} \<subseteq> fst ` set [(''body'', JStr ''b''), (''title'', JStr ''t''),
        (''userId'', JNum (Fin 0)), (''id'', JNum (Fin 7))]"
    by simp
  from a validatePost_failure_order [of "[(''body'', JStr ''b''), (''junk'', JNull)]"]
  have "validatePost (JObj [(''body'', JStr ''b''), (''junk'', JNull)])
     = Inl (Error (''Post missing required fields: '' @
          join '', '' (filter (\<lambda>f. f \<notin> fst ` set [(''body'', JStr ''b''), (''junk'', JNull)]) [''id'', ''userId'', ''title'', ''body''])))"
    by blast
  then have 1: "validatePost (JObj [(''body'', JStr ''b''), (''junk'', JNull)])
     = Inl (Error ''Post missing required fields: id, userId, title'')"
    by simp
  from b validatePost_failure_order [of "[(''body'', JStr ''b''), (''title'', JStr ''t''),
        (''userId'', JNum (Fin 0)), (''id'', JNum (Fin 7))]"]
  have "validatePost (JObj [(''body'', JStr ''b''), (''title'', JStr ''t''),
        (''userId'', JNum (Fin 0)), (''id'', JNum (Fin 7))]) =
        (if not_positive_number (get_member (JObj [(''body'', JStr ''b''), (''title'', JStr ''t''),
        (''userId'', JNum (Fin 0)), (''id'', JNum (Fin 7))]) ''id'')
         then Inl (Error ''Post ID must be a positive number'')
         else if not_positive_number (get_member (JObj [(''body'', JStr ''b''), (''title'', JStr ''t''),
        (''userId'', JNum (Fin 0)), (''id'', JNum (Fin 7))]) ''userId'')
         then Inl (Error ''User ID must be a positive number'')
         else if not_nonempty_string (get_member (JObj [(''body'', JStr ''b''), (''title'', JStr ''t''),
        (''userId'', JNum (Fin 0)), (''id'', JNum (Fin 7))]) ''title'')
         then Inl (Error ''Post title must be a non-empty string'')
         else if not_nonempty_string (get_member (JObj [(''body'', JStr ''b''), (''title'', JStr ''t''),
        (''userId'', JNum (Fin 0)), (''id'', JNum (Fin 7))]) ''body'')
         then Inl (Error ''Post body must be a non-empty string'')
         else Inr ())"
    by blast
  then have 2: "validatePost (JObj [(''body'', JStr ''b''), (''title'', JStr ''t''),
        (''userId'', JNum (Fin 0)), (''id'', JNum (Fin 7))])
     = Inl (Error ''User ID must be a positive number'')"
    by (simp add: eval_field)
  from 1 2 show ?thesis by simp
qed

text \<open>
  Claim C1. The claim has \<^verbatim>\<open>validatePost\<close> fail whenever \<^verbatim>\<open>id\<close> is not a positive number.
  \<^verbatim>\<open>NaN\<close> has type number and \<^verbatim>\<open>NaN <= 0\<close> is false, so the check
  \<^verbatim>\<open>typeof post.id !== 'number' || post.id <= 0\<close> lets it through: the post below is
  accepted.
\<close>

theorem validatePost_accepts_NaN_id:
  "validatePost (JObj [(''id'', JNum NaN), (''userId'', JNum (Fin 1)),
     (''title'', JStr ''a''), (''body'', JStr ''b'')]) = Inr ()"
  by (simp add: validatePost_JObj eval_field)

text \<open>The same post, read against the message of the check that should have fired.\<close>

theorem validatePost_accepts_NaN_id_witness:
  "validatePost (JObj [(''id'', JNum NaN), (''userId'', JNum (Fin 1)),
     (''title'', JStr ''a''), (''body'', JStr ''b'')])
   \<noteq> Inl (Error ''Post ID must be a positive number'')"
  using validatePost_accepts_NaN_id by simp

section \<open>Properties of the factory\<close>

subsection \<open>Auxiliary facts\<close>

lemma own_prop_Nil: "own_prop [] k = None"
  by (simp add: own_prop_def)

lemma own_prop_Cons:
  "own_prop (p # ps) k =
     (case own_prop ps k of Some x \<Rightarrow> Some x | None \<Rightarrow> if k = fst p then Some (snd p) else None)"
  by (cases p) (simp add: own_prop_def map_add_def split: option.split)

lemma createPost_no_argument: "createPost JUndefined = createPost (JObj [])"
  by (simp add: createPost_def default_arg_def)

lemma createUser_no_argument: "createUser now rnd JUndefined = createUser now rnd (JObj [])"
  by (simp add: createUser_def default_arg_def)

lemma createComment_no_argument: "createComment now rnd JUndefined = createComment now rnd (JObj [])"
  by (simp add: createComment_def default_arg_def)

lemma own_createUser:
  "own (createUser now rnd (JObj ov)) k =
     (case own_prop ov k of Some v \<Rightarrow> Some v | None \<Rightarrow> own (createUser now rnd (JObj [])) k)"
  by (simp only: createUser_def default_arg_def Let_def jsval.simps if_False spread.simps own.simps
      own_prop_append append_Nil2 own_prop_Nil option.simps)

lemma own_createComment:
  "own (createComment now rnd (JObj ov)) k =
     (case own_prop ov k of Some v \<Rightarrow> Some v | None \<Rightarrow> own (createComment now rnd (JObj [])) k)"
  by (simp only: createComment_def default_arg_def Let_def jsval.simps if_False spread.simps own.simps
      own_prop_append append_Nil2 own_prop_Nil option.simps)

lemma own_createPost_merge:
  "own (createPost (JObj ov)) k =
     (case own_prop ov k of Some v \<Rightarrow> Some v | None \<Rightarrow> own (createPost (JObj [])) k)"
  by (simp only: createPost_def default_arg_def Let_def jsval.simps if_False spread.simps own.simps
      own_prop_append append_Nil2 own_prop_Nil option.simps)

lemma createPost_defaults:
  "own (createPost (JObj [])) k =
     (if k = ''userId'' then Some (JNum (Fin 1))
      else if k = ''title'' then Some (JStr ''Test Post Title'')
      else if k = ''body'' then Some (JStr ''This is a test post body with meaningful content.'')
      else None)"
  by (simp add: createPost_def default_arg_def own_prop_def)

lemma createComment_defaults:
  "own (createComment now rnd (JObj [])) k =
     (if k = ''postId'' then Some (JNum (Fin 1))
      else if k = ''name'' then Some (JStr ''Test Comment'')
      else if k = ''email'' then Some (JStr (''commenter'' @ show_int (generateId now rnd) @ ''@example.com''))
      else if k = ''body'' then Some (JStr ''This is a test comment with valuable feedback.'')
      else None)"
  by (simp add: createComment_def default_arg_def own_prop_def Let_def)

lemma createUser_defaults:
  "own (createUser now rnd (JObj [])) k =
     (if k = ''name'' then Some (JStr ''Test User'')
      else if k = ''username'' then Some (JStr (''testuser'' @ show_int (generateId now rnd)))
      else if k = ''email'' then Some (JStr (''test'' @ show_int (generateId now rnd) @ ''@example.com''))
      else if k = ''address'' then Some (JObj
                [(''street'', JStr ''Test Street''),
                 (''suite'', JStr ''Apt. 123''),
                 (''city'', JStr ''Test City''),
                 (''zipcode'', JStr ''12345''),
                 (''geo'', JObj [(''lat'', JStr ''0.0000''), (''lng'', JStr ''0.0000'')])])
      else if k = ''phone'' then Some (JStr ''1-234-567-8901'')
      else if k = ''website'' then Some (JStr ''testuser.com'')
      else if k = ''company'' then Some (JObj
                [(''name'', JStr ''Test Company''),
                 (''catchPhrase'', JStr ''Testing excellence''),
                 (''bs'', JStr ''quality assurance'')])
      else None)"
  by (simp add: createUser_def default_arg_def own_prop_def Let_def)



text \<open>
  Claim C10. When the overrides have no \<^verbatim>\<open>id\<close> key, and in particular when
  \<^verbatim>\<open>createUser\<close> is called without argument, the user it returns has no \<^verbatim>\<open>id\<close> field,
  and \<^verbatim>\<open>validateUser\<close> rejects that user with the missing-fields error, which names
  \<^verbatim>\<open>id\<close> (and nothing else: the three other required fields always have a value).
\<close>

theorem createUser_lacks_id:
  "(''id'' \<notin> fst ` set ov \<longrightarrow>
      own (createUser now rnd (JObj ov)) ''id'' = None
      \<and> validateUser (createUser now rnd (JObj ov)) = Inl (Error ''User missing required fields: id''))
   \<and> own (createUser now rnd JUndefined) ''id'' = None
   \<and> validateUser (createUser now rnd JUndefined) = Inl (Error ''User missing required fields: id'')"
proof -
  have general: "own (createUser now rnd (JObj qs)) ''id'' = None
      \<and> validateUser (createUser now rnd (JObj qs)) = Inl (Error ''User missing required fields: id'')"
    if "''id'' \<notin> fst ` set qs" for qs
  proof
    from that have "own_prop qs ''id'' = None" by (simp add: own_prop_None)
    then show "own (createUser now rnd (JObj qs)) ''id'' = None"
      by (subst own_createUser) (simp add: createUser_defaults)
    from that show "validateUser (createUser now rnd (JObj qs)) = Inl (Error ''User missing required fields: id'')"
      by (simp add: createUser_def default_arg_def Let_def validateUser_JObj)
  qed
  from general [of "[]"] general [of ov] show ?thesis
    by (simp add: createUser_no_argument)
qed

text \<open>
  C10 at overrides that set only the name.
\<close>

theorem createUser_lacks_id_witness:
  "own (createUser 17 (1 / 3) (JObj [(''name'', JStr ''Ann'')])) ''id'' = None
   \<and> validateUser (createUser 17 (1 / 3) (JObj [(''name'', JStr ''Ann'')]))
       = Inl (Error ''User missing required fields: id'')"
proof -
  have "''id'' \<notin> fst ` set [(''name'', JStr ''Ann'')]" by simp
  with createUser_lacks_id [where ov = "[(''name'', JStr ''Ann'')]" and now = 17 and rnd = "1 / 3"]
  show ?thesis by blast
qed

text \<open>
  Claim C2. For every overrides object and every key: a key that the overrides define has,
  in the result of \<^verbatim>\<open>createPost\<close>, \<^verbatim>\<open>createUser\<close> and \<^verbatim>\<open>createComment\<close>, exactly the
  value the overrides give it (whole, also when the value is an object: nothing is merged
  into it); a key that the overrides do not define has the default of the factory, and
  is absent when the factory has no default for it.
\<close>

theorem override_precedence:
  "(k \<in> fst ` set ov \<longrightarrow>
       own_prop ov k \<noteq> None
     \<and> own (createPost (JObj ov)) k = own_prop ov k
     \<and> own (createUser now rnd (JObj ov)) k = own_prop ov k
     \<and> own (createComment now rnd (JObj ov)) k = own_prop ov k)
   \<and> (k \<notin> fst ` set ov \<longrightarrow>
       own (createPost (JObj ov)) k =
         (if k = ''userId'' then Some (JNum (Fin 1))
          else if k = ''title'' then Some (JStr ''Test Post Title'')
          else if k = ''body'' then Some (JStr ''This is a test post body with meaningful content.'')
          else None)
     \<and> own (createUser now rnd (JObj ov)) k =
         (if k = ''name'' then Some (JStr ''Test User'')
          else if k = ''username'' then Some (JStr (''testuser'' @ show_int (generateId now rnd)))
          else if k = ''email'' then Some (JStr (''test'' @ show_int (generateId now rnd) @ ''@example.com''))
          else if k = ''address'' then Some (JObj
                [(''street'', JStr ''Test Street''),
                 (''suite'', JStr ''Apt. 123''),
                 (''city'', JStr ''Test City''),
                 (''zipcode'', JStr ''12345''),
                 (''geo'', JObj [(''lat'', JStr ''0.0000''), (''lng'', JStr ''0.0000'')])])
          else if k = ''phone'' then Some (JStr ''1-234-567-8901'')
          else if k = ''website'' then Some (JStr ''testuser.com'')
          else if k = ''company'' then Some (JObj
                [(''name'', JStr ''Test Company''),
                 (''catchPhrase'', JStr ''Testing excellence''),
                 (''bs'', JStr ''quality assurance'')])
          else None)
     \<and> own (createComment now rnd (JObj ov)) k =
         (if k = ''postId'' then Some (JNum (Fin 1))
          else if k = ''name'' then Some (JStr ''Test Comment'')
          else if k = ''email'' then Some (JStr (''commenter'' @ show_int (generateId now rnd) @ ''@example.com''))
          else if k = ''body'' then Some (JStr ''This is a test comment with valuable feedback.'')
          else None))"
proof (intro conjI impI)
  assume "k \<in> fst ` set ov"
  then obtain v where v: "own_prop ov k = Some v"
    using own_prop_None [of ov k] by (cases "own_prop ov k") simp_all
  from v show "own_prop ov k \<noteq> None" by simp
  from v show "own (createPost (JObj ov)) k = own_prop ov k"
    by (subst own_createPost_merge) simp
  from v show "own (createUser now rnd (JObj ov)) k = own_prop ov k"
    by (subst own_createUser) simp
  from v show "own (createComment now rnd (JObj ov)) k = own_prop ov k"
    by (subst own_createComment) simp
next
  assume "k \<notin> fst ` set ov"
  then have n: "own_prop ov k = None" by (simp add: own_prop_None)
  from n show "own (createPost (JObj ov)) k =
         (if k = ''userId'' then Some (JNum (Fin 1))
          else if k = ''title'' then Some (JStr ''Test Post Title'')
          else if k = ''body'' then Some (JStr ''This is a test post body with meaningful content.'')
          else None)"
    by (subst own_createPost_merge) (simp only: option.simps createPost_defaults)
  from n show "own (createUser now rnd (JObj ov)) k =
         (if k = ''name'' then Some (JStr ''Test User'')
          else if k = ''username'' then Some (JStr (''testuser'' @ show_int (generateId now rnd)))
          else if k = ''email'' then Some (JStr (''test'' @ show_int (generateId now rnd) @ ''@example.com''))
          else if k = ''address'' then Some (JObj
                [(''street'', JStr ''Test Street''),
                 (''suite'', JStr ''Apt. 123''),
                 (''city'', JStr ''Test City''),
                 (''zipcode'', JStr ''12345''),
                 (''geo'', JObj [(''lat'', JStr ''0.0000''), (''lng'', JStr ''0.0000'')])])
          else if k = ''phone'' then Some (JStr ''1-234-567-8901'')
          else if k = ''website'' then Some (JStr ''testuser.com'')
          else if k = ''company'' then Some (JObj
                [(''name'', JStr ''Test Company''),
                 (''catchPhrase'', JStr ''Testing excellence''),
                 (''bs'', JStr ''quality assurance'')])
          else None)"
    by (subst own_createUser) (simp only: option.simps createUser_defaults)
  from n show "own (createComment now rnd (JObj ov)) k =
         (if k = ''postId'' then Some (JNum (Fin 1))
          else if k = ''name'' then Some (JStr ''Test Comment'')
          else if k = ''email'' then Some (JStr (''commenter'' @ show_int (generateId now rnd) @ ''@example.com''))
          else if k = ''body'' then Some (JStr ''This is a test comment with valuable feedback.'')
          else None)"
    by (subst own_createComment) (simp only: option.simps createComment_defaults)
qed

text \<open>
  C2 at overrides with a title and a one-field address: the address of the user is that
  one-field object, the title is the given one, and body and postId keep their defaults.
\<close>

theorem override_precedence_witness:
  "own (createUser 17 (1 / 3) (JObj [(''title'', JStr ''x''), (''address'', JObj [(''city'', JStr ''Y'')])])) ''address''
     = Some (JObj [(''city'', JStr ''Y'')])
   \<and> own (createPost (JObj [(''title'', JStr ''x''), (''address'', JObj [(''city'', JStr ''Y'')])])) ''title''
     = Some (JStr ''x'')
   \<and> own (createPost (JObj [(''title'', JStr ''x''), (''address'', JObj [(''city'', JStr ''Y'')])])) ''body''
     = Some (JStr ''This is a test post body with meaningful content.'')
   \<and> own (createComment 17 (1 / 3) (JObj [(''title'', JStr ''x''), (''address'', JObj [(''city'', JStr ''Y'')])])) ''postId''
     = Some (JNum (Fin 1))"
proof -
  let ?ov = "[(''title'', JStr ''x''), (''address'', JObj [(''city'', JStr ''Y'')])]"
  have a: "''address'' \<in> fst ` set ?ov" and t: "''title'' \<in> fst ` set ?ov"
    and b: "''body'' \<notin> fst ` set ?ov" and p: "''postId'' \<notin> fst ` set ?ov"
    by simp_all
  have va: "own_prop ?ov ''address'' = Some (JObj [(''city'', JStr ''Y'')])"
    and vt: "own_prop ?ov ''title'' = Some (JStr ''x'')"
    by (simp_all add: own_prop_def)
  from a override_precedence [where ov = ?ov and k = "''address''" and now = 17 and rnd = "1 / 3"]
  have 1: "own (createUser 17 (1 / 3) (JObj ?ov)) ''address'' = own_prop ?ov ''address''"
    by blast
  from t override_precedence [where ov = ?ov and k = "''title''" and now = 17 and rnd = "1 / 3"]
  have 2: "own (createPost (JObj ?ov)) ''title'' = own_prop ?ov ''title''"
    by blast
  from b override_precedence [where ov = ?ov and k = "''body''" and now = 17 and rnd = "1 / 3"]
  have 3: "own (createPost (JObj ?ov)) ''body''
     = Some (JStr ''This is a test post body with meaningful content.'')"
    by simp
  from p override_precedence [where ov = ?ov and k = "''postId''" and now = 17 and rnd = "1 / 3"]
  have 4: "own (createComment 17 (1 / 3) (JObj ?ov)) ''postId'' = Some (JNum (Fin 1))"
    by simp
  from 1 2 3 4 va vt show ?thesis by simp
qed

lemma createUser_username:
  "own (createUser now rnd JUndefined) ''username''
     = Some (JStr (''testuser'' @ show_int (generateId now rnd)))"
  by (simp add: createUser_no_argument createUser_defaults)

lemma createUser_email:
  "own (createUser now rnd JUndefined) ''email''
     = Some (JStr (''test'' @ show_int (generateId now rnd) @ ''@example.com''))"
  by (simp add: createUser_no_argument createUser_defaults)

lemma generateId_eval:
  assumes "round_double (rnd * 1000) = r" and "\<lfloor>r\<rfloor> = k" and "\<bar>now + k\<bar> < 2 ^ 53"
  shows "generateId now rnd = now + k"
proof -
  have "generateId now rnd = \<lfloor>round_double (of_int (now + k))\<rfloor>"
    unfolding generateId_def by (simp only: assms(1) assms(2) of_int_add)
  also have "\<dots> = now + k"
    by (simp only: round_double_int [OF assms(3)] floor_of_int)
  finally show ?thesis .
qed

lemma round_double_example_119: "round_double (535928355657089 / 2 ^ 52 * 1000) = 119"
  unfolding round_double_def round_half_even_def Let_def
  by (simp add: floor_log_def compute_floorlog floor_numeral_div)

lemma round_double_example_5: "round_double (11 / 2048 * 1000) = 1375 / 256"
  unfolding round_double_def round_half_even_def Let_def
  by (simp add: floor_log_def compute_floorlog floor_numeral_div)

lemma round_double_example_4: "round_double (9 / 2048 * 1000) = 1125 / 256"
  unfolding round_double_def round_half_even_def Let_def
  by (simp add: floor_log_def compute_floorlog floor_numeral_div)

lemma offset_example_5: "\<lfloor>round_double (11 / 2048 * 1000)\<rfloor> = (5::int)"
  by (simp only: round_double_example_5 floor_numeral_div)

lemma offset_example_4: "\<lfloor>round_double (9 / 2048 * 1000)\<rfloor> = (4::int)"
  by (simp only: round_double_example_4 floor_numeral_div)

lemma generateId_example_136: "generateId 17 (535928355657089 / 2 ^ 52) = 136"
proof -
  have "generateId 17 (535928355657089 / 2 ^ 52) = 17 + 119"
    by (rule generateId_eval [OF round_double_example_119]) simp_all
  then show ?thesis by simp
qed

lemma generateId_example_22: "generateId 17 (11 / 2048) = 22"
proof -
  have "\<lfloor>1375 / 256 :: rat\<rfloor> = 5" by (simp add: floor_numeral_div)
  with round_double_example_5 have "generateId 17 (11 / 2048) = 17 + 5"
    by (rule generateId_eval) simp
  then show ?thesis by simp
qed

lemma generateId_example_22': "generateId 18 (9 / 2048) = 22"
proof -
  have "\<lfloor>1125 / 256 :: rat\<rfloor> = 4" by (simp add: floor_numeral_div)
  with round_double_example_4 have "generateId 18 (9 / 2048) = 18 + 4"
    by (rule generateId_eval) simp
  then show ?thesis by simp
qed

lemma generateId_example_517: "generateId 17 (1 / 2) = 517"
proof -
  have "round_double (of_int 500) = of_int 500" by (rule round_double_int) simp
  then have "round_double (1 / 2 * 1000) = 500" by simp
  then have "generateId 17 (1 / 2) = 17 + 500"
    by (rule generateId_eval) simp_all
  then show ?thesis by simp
qed

lemma show_int_22: "show_int 22 = ''22''"
  by (simp add: show_int_def digits.simps digit_char_def)

lemma show_int_136: "show_int 136 = ''136''"
  by (simp add: show_int_def digits.simps digit_char_def)

lemma is_double_example: "is_double (11 / 2048)"
proof -
  have "\<bar>11::int\<bar> < 2 ^ 53 \<and> - 1074 \<le> (- 11::int) \<and> (- 11::int) \<le> 971
      \<and> (11::rat) / 2048 = of_int 11 * 2 powi (- 11)"
    by (simp add: power_int_minus_divide)
  then show ?thesis unfolding is_double_def by blast
qed

text \<open>
  Claim C8, as worded, ends with: two calls produce different usernames and emails whenever
  the timestamp or the offset differs. The calls at the clock values 17 and 18 with the
  random numbers 11/2048 and 9/2048 differ in both (the offsets are 5 and 4) and return the
  same identifier 22, hence the same username and the same email.
\<close>

theorem same_id_from_different_calls_counterexample:
  "(17::int) \<noteq> 18
   \<and> \<lfloor>round_double (11 / 2048 * 1000)\<rfloor> = (5::int)
   \<and> \<lfloor>round_double (9 / 2048 * 1000)\<rfloor> = (4::int)
   \<and> generateId 17 (11 / 2048) = 22 \<and> generateId 18 (9 / 2048) = 22
   \<and> own (createUser 17 (11 / 2048) JUndefined) ''username'' = Some (JStr ''testuser22'')
   \<and> own (createUser 18 (9 / 2048) JUndefined) ''username'' = Some (JStr ''testuser22'')
   \<and> own (createUser 17 (11 / 2048) JUndefined) ''email'' = Some (JStr ''test22@example.com'')
   \<and> own (createUser 18 (9 / 2048) JUndefined) ''email'' = Some (JStr ''test22@example.com'')"
  by (simp only: offset_example_5 offset_example_4 generateId_example_22 generateId_example_22'
      createUser_username createUser_email show_int_22) simp

text \<open>
  Claim C8, amended in its last clause. For a clock value in the range of \<^verbatim>\<open>Date.now\<close> and a
  random double in \<open>[0, 1)\<close>, \<^verbatim>\<open>generateId\<close> is the time in milliseconds plus an integer
  offset in \<open>[0, 1000)\<close>. Without overrides the username is \<^verbatim>\<open>testuser\<close> followed by the
  identifier and the email is \<^verbatim>\<open>test\<close>, the identifier and \<^verbatim>\<open>@example.com\<close>, the identifier
  written in decimal digits (1234567890 as \<^verbatim>\<open>1234567890\<close>, and the identifier 136 of the
  clock value 17 and the random number 535928355657089 / 2^52 giving \<^verbatim>\<open>testuser136\<close> and
  \<^verbatim>\<open>test136@example.com\<close>). The decimal form is injective, so two calls return different
  usernames, and different emails, exactly when their identifiers (the sums of timestamp and
  offset) differ.
\<close>

theorem distinct_ids_distinct_defaults:
  "(is_double rnd \<and> 0 \<le> rnd \<and> rnd < 1 \<and> \<bar>now\<bar> \<le> 8640000000000000 \<longrightarrow>
      (\<exists>offset. 0 \<le> offset \<and> offset < 1000 \<and> generateId now rnd = now + offset))
   \<and> own (createUser now rnd JUndefined) ''username''
       = Some (JStr (''testuser'' @ show_int (generateId now rnd)))
   \<and> own (createUser now rnd JUndefined) ''email''
       = Some (JStr (''test'' @ show_int (generateId now rnd) @ ''@example.com''))
   \<and> (generateId now rnd \<noteq> generateId now' rnd' \<longrightarrow>
        own (createUser now rnd JUndefined) ''username''
          \<noteq> own (createUser now' rnd' JUndefined) ''username''
      \<and> own (createUser now rnd JUndefined) ''email''
          \<noteq> own (createUser now' rnd' JUndefined) ''email'')
   \<and> (generateId now rnd = generateId now' rnd' \<longrightarrow>
        own (createUser now rnd JUndefined) ''username''
          = own (createUser now' rnd' JUndefined) ''username''
      \<and> own (createUser now rnd JUndefined) ''email''
          = own (createUser now' rnd' JUndefined) ''email'')
   \<and> (i \<noteq> j \<longrightarrow> show_int i \<noteq> show_int j)
   \<and> show_int 1234567890 = ''1234567890'' \<and> show_int (- 45) = ''-45''
   \<and> generateId 17 (535928355657089 / 2 ^ 52) = 136
   \<and> own (createUser 17 (535928355657089 / 2 ^ 52) JUndefined) ''username''
       = Some (JStr ''testuser136'')
   \<and> own (createUser 17 (535928355657089 / 2 ^ 52) JUndefined) ''email''
       = Some (JStr ''test136@example.com'')"
proof -
  have offset: "is_double rnd \<and> 0 \<le> rnd \<and> rnd < 1 \<and> \<bar>now\<bar> \<le> 8640000000000000 \<longrightarrow>
      (\<exists>offset. 0 \<le> offset \<and> offset < 1000 \<and> generateId now rnd = now + offset)"
  proof
    assume "is_double rnd \<and> 0 \<le> rnd \<and> rnd < 1 \<and> \<bar>now\<bar> \<le> 8640000000000000"
    then have "is_double rnd" and "0 \<le> rnd" and "rnd < 1" and "\<bar>now\<bar> \<le> 8640000000000000"
      by simp_all
    then have "0 \<le> generateId now rnd - now \<and> generateId now rnd - now < 1000"
      by (rule generateId_offset)
    then have "0 \<le> generateId now rnd - now \<and> generateId now rnd - now < 1000
        \<and> generateId now rnd = now + (generateId now rnd - now)"
      by simp
    then show "\<exists>offset. 0 \<le> offset \<and> offset < 1000 \<and> generateId now rnd = now + offset"
      by (rule exI)
  qed
  have differ: "generateId now rnd \<noteq> generateId now' rnd' \<longrightarrow>
        own (createUser now rnd JUndefined) ''username''
          \<noteq> own (createUser now' rnd' JUndefined) ''username''
      \<and> own (createUser now rnd JUndefined) ''email''
          \<noteq> own (createUser now' rnd' JUndefined) ''email''"
  proof
    assume "generateId now rnd \<noteq> generateId now' rnd'"
    then have "show_int (generateId now rnd) \<noteq> show_int (generateId now' rnd')"
      using show_int_inj by blast
    then show "own (createUser now rnd JUndefined) ''username''
          \<noteq> own (createUser now' rnd' JUndefined) ''username''
      \<and> own (createUser now rnd JUndefined) ''email''
          \<noteq> own (createUser now' rnd' JUndefined) ''email''"
      by (simp only: createUser_username createUser_email) simp
  qed
  have same: "generateId now rnd = generateId now' rnd' \<longrightarrow>
        own (createUser now rnd JUndefined) ''username''
          = own (createUser now' rnd' JUndefined) ''username''
      \<and> own (createUser now rnd JUndefined) ''email''
          = own (createUser now' rnd' JUndefined) ''email''"
    by (simp only: createUser_username createUser_email) simp
  have inj: "i \<noteq> j \<longrightarrow> show_int i \<noteq> show_int j"
    using show_int_inj by blast
  have decimal: "show_int 1234567890 = ''1234567890''" "show_int (- 45) = ''-45''"
    by (simp_all add: show_int_def digits.simps digit_char_def)
  have username: "own (createUser 17 (535928355657089 / 2 ^ 52) JUndefined) ''username''
       = Some (JStr ''testuser136'')"
    by (simp only: createUser_username generateId_example_136 show_int_136) simp
  have email: "own (createUser 17 (535928355657089 / 2 ^ 52) JUndefined) ''email''
       = Some (JStr ''test136@example.com'')"
    by (simp only: createUser_email generateId_example_136 show_int_136) simp
  from offset createUser_username [of now rnd] createUser_email [of now rnd] differ same inj
    decimal generateId_example_136 username email
  show ?thesis by blast
qed

text \<open>
  C8 at the clock value 17 with the random numbers 11/2048 and 1/2, whose identifiers are
  22 and 517, and at the clock value 18 with 9/2048, whose identifier is 22 again.
\<close>

theorem distinct_ids_distinct_defaults_witness:
  "generateId 17 (11 / 2048) = 22 \<and> generateId 17 (1 / 2) = 517
   \<and> show_int 22 \<noteq> show_int 517
   \<and> (\<exists>offset. 0 \<le> offset \<and> offset < 1000 \<and> generateId 17 (11 / 2048) = 17 + offset)
   \<and> own (createUser 17 (11 / 2048) JUndefined) ''username''
       \<noteq> own (createUser 17 (1 / 2) JUndefined) ''username''
   \<and> own (createUser 17 (11 / 2048) JUndefined) ''email''
       \<noteq> own (createUser 17 (1 / 2) JUndefined) ''email''
   \<and> own (createUser 17 (11 / 2048) JUndefined) ''username''
       = own (createUser 18 (9 / 2048) JUndefined) ''username''
   \<and> own (createUser 17 (11 / 2048) JUndefined) ''email''
       = own (createUser 18 (9 / 2048) JUndefined) ''email''"
proof -
  have a: "generateId 17 (11 / 2048) = 22" by (rule generateId_example_22)
  have b: "generateId 17 (1 / 2) = 517" by (rule generateId_example_517)
  have c: "generateId 18 (9 / 2048) = 22" by (rule generateId_example_22')
  have r: "is_double (11 / 2048) \<and> (0::rat) \<le> 11 / 2048 \<and> (11::rat) / 2048 < 1
      \<and> \<bar>17::int\<bar> \<le> 8640000000000000"
    by (simp add: is_double_example)
  from a b have ne: "generateId 17 (11 / 2048) \<noteq> generateId 17 (1 / 2)" by simp
  from a c have eq: "generateId 17 (11 / 2048) = generateId 18 (9 / 2048)" by simp
  note inst = distinct_ids_distinct_defaults
    [where now = 17 and rnd = "11 / 2048" and now' = 17 and rnd' = "1 / 2" and i = 22 and j = 517]
  note inst' = distinct_ids_distinct_defaults
    [where now = 17 and rnd = "11 / 2048" and now' = 18 and rnd' = "9 / 2048" and i = 22 and j = 517]
  from inst r have 1: "\<exists>offset. 0 \<le> offset \<and> offset < 1000 \<and> generateId 17 (11 / 2048) = 17 + offset"
    by blast
  from inst ne have 2: "own (createUser 17 (11 / 2048) JUndefined) ''username''
       \<noteq> own (createUser 17 (1 / 2) JUndefined) ''username''
   \<and> own (createUser 17 (11 / 2048) JUndefined) ''email''
       \<noteq> own (createUser 17 (1 / 2) JUndefined) ''email''"
    by blast
  have "(22::int) \<noteq> 517" by simp
  with inst have 3: "show_int 22 \<noteq> show_int 517" by blast
  from inst' eq have 4: "own (createUser 17 (11 / 2048) JUndefined) ''username''
       = own (createUser 18 (9 / 2048) JUndefined) ''username''
   \<and> own (createUser 17 (11 / 2048) JUndefined) ''email''
       = own (createUser 18 (9 / 2048) JUndefined) ''email''"
    by blast
  from a b 1 2 3 4 show ?thesis by blast
qed

section \<open>The email pattern\<close>

text \<open>
  What \<open>rx_test\<close> accepts, constructor by constructor, and from that the strings that
  \<open>emailRegex\<close> accepts: those of \<open>email_pattern\<close>.
\<close>

lemma rx_test_Zero: "rx_test Zero w = False"
  by (induction w) simp_all

lemma rx_test_One: "rx_test One w = (w = [])"
  by (cases w) (simp_all add: rx_test_Zero)

lemma rx_test_Lit: "rx_test (Lit d) w = (w = [d])"
proof (cases w)
  case Nil
  then show ?thesis by simp
next
  case (Cons c cs)
  then show ?thesis by (auto simp add: rx_test_One rx_test_Zero)
qed

lemma rx_test_NegClass:
  "rx_test (NegClass cl) w = (\<exists>c. w = [c] \<and> \<not> list_ex (\<lambda>i. citem_has i c) cl)"
proof (cases w)
  case Nil
  then show ?thesis by simp
next
  case (Cons c cs)
  then show ?thesis by (auto simp add: rx_test_One rx_test_Zero)
qed

lemma rx_test_Alt: "rx_test (Alt r s) w = (rx_test r w \<or> rx_test s w)"
  by (induction w arbitrary: r s) simp_all

lemma rx_test_Times:
  "rx_test (Times r s) w = (\<exists>u v. w = u @ v \<and> rx_test r u \<and> rx_test s v)"
proof (induction w arbitrary: r)
  case Nil
  then show ?case by simp
next
  case (Cons c w)
  have split: "(\<exists>u v. c # w = u @ v \<and> rx_test r u \<and> rx_test s v) =
      ((nullable r \<and> rx_test s (c # w)) \<or> (\<exists>u v. w = u @ v \<and> rx_test (deriv c r) u \<and> rx_test s v))"
    (is "?L = ?R")
  proof
    assume ?L
    then obtain u v where uv: "c # w = u @ v" "rx_test r u" "rx_test s v" by blast
    show ?R
    proof (cases u)
      case Nil
      with uv show ?thesis by simp
    next
      case (Cons d u')
      with uv have "w = u' @ v" "rx_test (deriv c r) u'" by simp_all
      with uv(3) show ?thesis by blast
    qed
  next
    assume ?R
    then show ?L
    proof
      assume "nullable r \<and> rx_test s (c # w)"
      then have "c # w = [] @ (c # w) \<and> rx_test r [] \<and> rx_test s (c # w)" by simp
      then show ?L by blast
    next
      assume "\<exists>u v. w = u @ v \<and> rx_test (deriv c r) u \<and> rx_test s v"
      then obtain u v where "w = u @ v" "rx_test (deriv c r) u" "rx_test s v" by blast
      then have "c # w = (c # u) @ v \<and> rx_test r (c # u) \<and> rx_test s v" by simp
      then show ?L by blast
    qed
  qed
  show ?case
    unfolding split by (auto simp add: rx_test_Alt Cons.IH)
qed

lemma rx_test_Star_NegClass:
  "rx_test (Star (NegClass cl)) w = (\<forall>c\<in>set w. \<not> list_ex (\<lambda>i. citem_has i c) cl)"
proof (induction w)
  case Nil
  then show ?case by simp
next
  case (Cons c w)
  then show ?case
    by (simp add: rx_test_Times rx_test_One rx_test_Zero)
qed

lemma rx_test_Plus_NegClass:
  "rx_test (Plus (NegClass cl)) w = (w \<noteq> [] \<and> (\<forall>c\<in>set w. \<not> list_ex (\<lambda>i. citem_has i c) cl))"
proof (cases w)
  case Nil
  then show ?thesis by (simp add: Plus_def)
next
  case (Cons c cs)
  then show ?thesis
    by (simp add: Plus_def rx_test_Star_NegClass rx_test_Times rx_test_One rx_test_Zero)
qed

lemma email_class: "(\<not> list_ex (\<lambda>i. citem_has i c) [CSpace, CChar CHR ''@'']) = (\<not> is_space c \<and> c \<noteq> CHR ''@'')"
  by simp

lemma rx_test_emailRegex: "rx_test emailRegex s = email_pattern s"
proof -
  have part: "rx_test (Plus (NegClass [CSpace, CChar CHR ''@''])) w = email_part w" for w
    by (simp only: rx_test_Plus_NegClass email_class email_part_def)
  have "rx_test emailRegex s =
      (\<exists>a v1. s = a @ v1 \<and> email_part a \<and>
        (\<exists>x v2. v1 = x @ v2 \<and> x = ''@'' \<and>
          (\<exists>b v3. v2 = b @ v3 \<and> email_part b \<and>
            (\<exists>y c. v3 = y @ c \<and> y = ''.'' \<and> email_part c))))"
    by (simp only: emailRegex_def rx_test_Times part rx_test_Lit)
  also have "\<dots> = (\<exists>a b c. s = a @ ''@'' @ b @ ''.'' @ c \<and> email_part a \<and> email_part b \<and> email_part c)"
    by blast
  finally show ?thesis unfolding email_pattern_def .
qed

lemma email_pattern_has_at: "email_pattern s \<Longrightarrow> CHR ''@'' \<in> set s"
proof -
  assume "email_pattern s"
  then obtain a b c where "s = a @ ''@'' @ b @ ''.'' @ c"
    unfolding email_pattern_def by blast
  then show ?thesis by simp
qed

lemma spec_email_pattern_has_at: "spec_email_pattern s \<Longrightarrow> CHR ''@'' \<in> set s"
proof -
  assume "spec_email_pattern s"
  then obtain a b c where "s = a @ ''@'' @ b @ ''.'' @ c"
    unfolding spec_email_pattern_def by blast
  then show ?thesis by simp
qed

lemma email_part_nonspace: "email_part w \<Longrightarrow> nonspace_part w"
  by (simp add: email_part_def nonspace_part_def)

lemma email_pattern_imp_spec: "email_pattern s \<Longrightarrow> spec_email_pattern s"
proof -
  assume "email_pattern s"
  then obtain a b c where "s = a @ ''@'' @ b @ ''.'' @ c" "email_part a" "email_part b" "email_part c"
    unfolding email_pattern_def by blast
  then have "s = a @ ''@'' @ b @ ''.'' @ c \<and> email_part a \<and> email_part b \<and> nonspace_part c"
    by (simp add: email_part_nonspace)
  then show ?thesis unfolding spec_email_pattern_def by blast
qed

lemma no_at_no_match: "CHR ''@'' \<notin> set s \<Longrightarrow> rx_test emailRegex s = False"
  using email_pattern_has_at [of s] by (simp only: rx_test_emailRegex) blast

lemma user_fields_present:
  "(filter (\<lambda>f. f \<notin> fst ` set ps) [''id'', ''name'', ''username'', ''email''] = []) =
   ({''id'', ''name'', ''username'', ''email''} \<subseteq> fst ` set ps)"
  by (auto simp add: filter_empty_conv simp del: filter.simps)

lemma emailRegex_test_value:
  "emailRegex_test (Data v) =
     (case to_string v of Inl e \<Rightarrow> Inl e | Inr t \<Rightarrow> Inr (email_pattern t))"
  by (simp only: emailRegex_test_def rx_test_emailRegex member.case)

lemma emailRegex_test_string:
  "emailRegex_test (Data (JStr s)) = Inr (email_pattern s)"
  by (simp only: emailRegex_test_value to_string.simps sum.case)

lemma no_at_no_pattern: "CHR ''@'' \<notin> set s \<Longrightarrow> email_pattern s = False"
  using email_pattern_has_at [of s] by blast

lemma emailRegex_test_other:
  assumes "\<forall>s. v \<noteq> JStr s" and "\<forall>xs. v \<noteq> JArr xs"
  shows "emailRegex_test (Data v) = Inr False
    \<or> emailRegex_test (Data v) = Inl (TypeError ''Cannot convert object to primitive value'')"
proof (cases v)
  case (JStr s)
  with assms show ?thesis by simp
next
  case (JArr xs)
  with assms show ?thesis by simp
next
  case JUndefined
  have "email_pattern ''undefined'' = False" by (rule no_at_no_pattern) simp
  with JUndefined show ?thesis
    by (simp only: emailRegex_test_value to_string.simps sum.case simp_thms)
next
  case JNull
  have "email_pattern ''null'' = False" by (rule no_at_no_pattern) simp
  with JNull show ?thesis
    by (simp only: emailRegex_test_value to_string.simps sum.case simp_thms)
next
  case (JBool b)
  have "email_pattern ''true'' = False" by (rule no_at_no_pattern) simp
  moreover have "email_pattern ''false'' = False" by (rule no_at_no_pattern) simp
  ultimately have "email_pattern (if b then ''true'' else ''false'') = False"
    by (cases b) (simp_all only: if_True if_False)
  with JBool show ?thesis
    by (simp only: emailRegex_test_value to_string.simps sum.case simp_thms)
next
  case (JNum n)
  have "email_pattern (num_to_string n) = False"
    by (rule no_at_no_pattern) (rule num_to_string_no_at)
  with JNum show ?thesis
    by (simp only: emailRegex_test_value to_string.simps sum.case simp_thms)
next
  case (JObj ps)
  have "email_pattern ''[object Object]'' = False" by (rule no_at_no_pattern) simp
  with JObj show ?thesis
    by (cases "own_prop ps ''toString'' = None")
       (simp_all only: emailRegex_test_value to_string.simps sum.case simp_thms if_True if_False)
qed

section \<open>Properties of \<^verbatim>\<open>validateUser\<close> and of the identifier checks\<close>

lemma validateUser_depends:
  assumes "\<forall>k\<in>{''id'', ''name'', ''username'', ''email''}. (own_prop ps k = None) = (own_prop qs k = None)"
    and "own_prop ps ''email'' = own_prop qs ''email''"
  shows "validateUser (JObj ps) = validateUser (JObj qs)"
proof -
  have same: "(k \<notin> fst ` set ps) = (k \<notin> fst ` set qs)"
    if "k \<in> {''id'', ''name'', ''username'', ''email''}" for k
  proof -
    from assms(1) that have "(own_prop ps k = None) = (own_prop qs k = None)" by (rule bspec)
    then show ?thesis by (simp only: own_prop_None)
  qed
  have "filter (\<lambda>f. f \<notin> fst ` set ps) [''id'', ''name'', ''username'', ''email'']
      = filter (\<lambda>f. f \<notin> fst ` set qs) [''id'', ''name'', ''username'', ''email'']"
    by (rule filter_cong) (simp_all add: same)
  moreover have "get_member (JObj ps) ''email'' = get_member (JObj qs) ''email''"
    using assms(2) by (simp add: get_member_def)
  ultimately show ?thesis by (simp only: validateUser_JObj)
qed

lemma validateComment_depends:
  assumes "\<forall>k\<in>{''id'', ''postId'', ''name'', ''email'', ''body''}.
      (own_prop ps k = None) = (own_prop qs k = None)"
  shows "validateComment (JObj ps) = validateComment (JObj qs)"
proof -
  have same: "(k \<notin> fst ` set ps) = (k \<notin> fst ` set qs)"
    if "k \<in> {''id'', ''postId'', ''name'', ''email'', ''body''}" for k
  proof -
    from assms that have "(own_prop ps k = None) = (own_prop qs k = None)" by (rule bspec)
    then show ?thesis by (simp only: own_prop_None)
  qed
  have "filter (\<lambda>f. f \<notin> fst ` set ps) [''id'', ''postId'', ''name'', ''email'', ''body'']
      = filter (\<lambda>f. f \<notin> fst ` set qs) [''id'', ''postId'', ''name'', ''email'', ''body'']"
    by (rule filter_cong) (simp_all add: same)
  then show ?thesis by (simp only: validateComment_JObj)
qed

lemma validateUser_fields:
  assumes "\<forall>k\<in>{''id'', ''name'', ''username'', ''email''}. own_prop ps k = own_prop qs k"
  shows "validateUser (JObj ps) = validateUser (JObj qs)"
proof (rule validateUser_depends)
  from assms show "\<forall>k\<in>{''id'', ''name'', ''username'', ''email''}.
      (own_prop ps k = None) = (own_prop qs k = None)"
    by simp
  from assms show "own_prop ps ''email'' = own_prop qs ''email''" by simp
qed

lemma validateUser_present:
  assumes "{''id'', ''name'', ''username'', ''email''} \<subseteq> fst ` set ps"
  shows "validateUser (JObj ps) =
     (case emailRegex_test (get_member (JObj ps) ''email'') of
        Inl e \<Rightarrow> Inl e
      | Inr matched \<Rightarrow> if matched then Inr () else Inl (Error ''User email must be valid format''))"
  using assms unfolding validateUser_JObj Let_def user_fields_present by simp

lemma validateUser_missing:
  assumes "\<not> {''id'', ''name'', ''username'', ''email''} \<subseteq> fst ` set ps"
  shows "validateUser (JObj ps) =
     Inl (Error (''User missing required fields: '' @
       join '', '' (filter (\<lambda>f. f \<notin> fst ` set ps) [''id'', ''name'', ''username'', ''email''])))"
  using assms unfolding validateUser_JObj Let_def user_fields_present by simp

lemma get_member_email:
  "own_prop ps ''email'' = Some v \<Longrightarrow> get_member (JObj ps) ''email'' = Data v"
  by (simp add: get_member_def)

lemma email_example_good: "email_pattern ''a@b.co''"
proof -
  have "''a@b.co'' = ''a'' @ ''@'' @ ''b'' @ ''.'' @ ''co'' \<and> email_part ''a'' \<and> email_part ''b''
      \<and> email_part ''co''"
    by (simp add: email_part_def is_space_def)
  then show ?thesis unfolding email_pattern_def by blast
qed

lemma email_example_bad: "\<not> email_pattern ''not-an-email''"
  using email_pattern_has_at [of "''not-an-email''"] by auto

lemma email_example_spec_only: "spec_email_pattern ''a@b.c@d'' \<and> \<not> email_pattern ''a@b.c@d''"
proof
  have "''a@b.c@d'' = ''a'' @ ''@'' @ ''b'' @ ''.'' @ ''c@d'' \<and> email_part ''a'' \<and> email_part ''b''
      \<and> nonspace_part ''c@d''"
    by (simp add: email_part_def nonspace_part_def is_space_def)
  then show "spec_email_pattern ''a@b.c@d''" unfolding spec_email_pattern_def by blast
  have "\<not> rx_test emailRegex ''a@b.c@d''"
    by (simp add: emailRegex_def Plus_def is_space_def)
  with rx_test_emailRegex [of "''a@b.c@d''"] show "\<not> email_pattern ''a@b.c@d''" by blast
qed


text \<open>
  Claim C3, as stated, fails. By the words of the claim the last part of the pattern is
  one or more characters that are not white space, so \<^verbatim>\<open>a@b.c@d\<close> matches the pattern
  (\<^verbatim>\<open>c@d\<close> has no white space); \<^verbatim>\<open>validateUser\<close> rejects a user with that email, all
  four fields being present.
\<close>

theorem validateUser_pattern_counterexample:
  "spec_email_pattern ''a@b.c@d''
   \<and> validateUser (JObj [(''id'', JNum (Fin 1)), (''name'', JStr ''n''), (''username'', JStr ''u''),
        (''email'', JStr ''a@b.c@d'')]) = Inl (Error ''User email must be valid format'')"
proof -
  let ?ps = "[(''id'', JNum (Fin 1)), (''name'', JStr ''n''), (''username'', JStr ''u''),
        (''email'', JStr ''a@b.c@d'')]"
  have present: "{''id'', ''name'', ''username'', ''email''} \<subseteq> fst ` set ?ps" by simp
  have email: "get_member (JObj ?ps) ''email'' = Data (JStr ''a@b.c@d'')"
    by (rule get_member_email) (simp add: own_prop_def)
  have "validateUser (JObj ?ps) = Inl (Error ''User email must be valid format'')"
    using email_example_spec_only
    by (simp only: validateUser_present [OF present] email emailRegex_test_string
        sum.case if_False)
  with email_example_spec_only show ?thesis by blast
qed

text \<open>
  Claim C3, amended in the last part of the pattern, which excludes \<^verbatim>\<open>@\<close> like the first two.
  \<^verbatim>\<open>validateUser\<close> fails on a value that is not an object, and on an object that lacks
  one of \<^verbatim>\<open>id\<close>, \<^verbatim>\<open>name\<close>, \<^verbatim>\<open>username\<close>, \<^verbatim>\<open>email\<close> (an array is such an object: it
  lacks all four). When the four are present and the email is a string, it succeeds if the
  string matches the pattern and fails with the format error if not. An email of any other
  kind is matched as the regular expression test matches it, on its conversion to a string:
  the user succeeds if the conversion matches the pattern, fails with the format error if it
  does not, and fails with the error of the conversion if there is one. So an email that is
  undefined, null, a boolean, a number or a plain object fails, its conversion having no
  \<^verbatim>\<open>@\<close>, and the one-element array of \<^verbatim>\<open>a@b.co\<close> succeeds, as does the array of \<^verbatim>\<open>a@b\<close>
  and the number 1.5, which is converted to \<^verbatim>\<open>a@b,1.5\<close>. A string that does not match the
  pattern as the claim words it does not match the amended one either, so it fails. Two
  objects that agree on the four fields have the same outcome: no other field is checked.
  The email \<^verbatim>\<open>not-an-email\<close> fails and \<^verbatim>\<open>a@b.co\<close> succeeds.
\<close>

theorem validateUser_outcome:
  "((\<forall>qs. u \<noteq> JObj qs) \<and> (\<forall>xs. u \<noteq> JArr xs)
      \<longrightarrow> validateUser u = Inl (Error ''User must be an object''))
   \<and> validateUser (JArr xs)
       = Inl (Error ''User missing required fields: id, name, username, email'')
   \<and> (\<not> {''id'', ''name'', ''username'', ''email''} \<subseteq> fst ` set ps \<longrightarrow>
        validateUser (JObj ps) =
          Inl (Error (''User missing required fields: '' @
            join '', '' (filter (\<lambda>f. f \<notin> fst ` set ps) [''id'', ''name'', ''username'', ''email'']))))
   \<and> ({''id'', ''name'', ''username'', ''email''} \<subseteq> fst ` set ps
        \<and> own_prop ps ''email'' = Some (JStr s) \<longrightarrow>
        validateUser (JObj ps) =
          (if email_pattern s then Inr () else Inl (Error ''User email must be valid format'')))
   \<and> ({''id'', ''name'', ''username'', ''email''} \<subseteq> fst ` set ps
        \<and> own_prop ps ''email'' = Some v \<longrightarrow>
        validateUser (JObj ps) =
          (case to_string v of
             Inl e \<Rightarrow> Inl e
           | Inr t \<Rightarrow>
               if email_pattern t then Inr () else Inl (Error ''User email must be valid format'')))
   \<and> ({''id'', ''name'', ''username'', ''email''} \<subseteq> fst ` set ps
        \<and> (\<forall>t. own_prop ps ''email'' \<noteq> Some (JStr t))
        \<and> (\<forall>ys. own_prop ps ''email'' \<noteq> Some (JArr ys)) \<longrightarrow>
        (\<exists>e. validateUser (JObj ps) = Inl e))
   \<and> (\<not> spec_email_pattern s \<longrightarrow> \<not> email_pattern s)
   \<and> ((\<forall>k\<in>{''id'', ''name'', ''username'', ''email''}. own_prop ps k = own_prop qs k) \<longrightarrow>
        validateUser (JObj ps) = validateUser (JObj qs))
   \<and> validateUser (JObj [(''id'', JNum (Fin 1)), (''name'', JStr ''n''), (''username'', JStr ''u''),
        (''email'', JStr ''not-an-email'')]) = Inl (Error ''User email must be valid format'')
   \<and> validateUser (JObj [(''id'', JNum (Fin 1)), (''name'', JStr ''n''), (''username'', JStr ''u''),
        (''email'', JStr ''a@b.co'')]) = Inr ()
   \<and> validateUser (JObj [(''id'', JNum (Fin 1)), (''name'', JStr ''n''), (''username'', JStr ''u''),
        (''email'', JArr [JStr ''a@b.co''])]) = Inr ()
   \<and> to_string (JArr [JStr ''a@b'', JNum (Fin (3 / 2))]) = Inr ''a@b,1.5''
   \<and> validateUser (JObj [(''id'', JNum (Fin 1)), (''name'', JStr ''n''), (''username'', JStr ''u''),
        (''email'', JArr [JStr ''a@b'', JNum (Fin (3 / 2))])]) = Inr ()
   \<and> validateUser (JObj [(''id'', JNum (Fin 1)), (''name'', JStr ''n''), (''username'', JStr ''u''),
        (''email'', JNull)]) = Inl (Error ''User email must be valid format'')"
proof (intro conjI impI)
  assume "(\<forall>qs. u \<noteq> JObj qs) \<and> (\<forall>xs. u \<noteq> JArr xs)"
  then have "\<not> truthy u \<or> typeof u \<noteq> ''object''" by (rule not_object_cases)
  then show "validateUser u = Inl (Error ''User must be an object'')"
    by (auto simp add: validateUser_def)
next
  show "validateUser (JArr xs)
       = Inl (Error ''User missing required fields: id, name, username, email'')"
    by (rule validateUser_JArr)
next
  assume "\<not> {''id'', ''name'', ''username'', ''email''} \<subseteq> fst ` set ps"
  then show "validateUser (JObj ps) =
          Inl (Error (''User missing required fields: '' @
            join '', '' (filter (\<lambda>f. f \<notin> fst ` set ps) [''id'', ''name'', ''username'', ''email''])))"
    by (rule validateUser_missing)
next
  assume a: "{''id'', ''name'', ''username'', ''email''} \<subseteq> fst ` set ps
        \<and> own_prop ps ''email'' = Some (JStr s)"
  then have present: "{''id'', ''name'', ''username'', ''email''} \<subseteq> fst ` set ps"
    and email: "get_member (JObj ps) ''email'' = Data (JStr s)"
    by (simp_all add: get_member_email)
  show "validateUser (JObj ps) =
          (if email_pattern s then Inr () else Inl (Error ''User email must be valid format''))"
    by (simp only: validateUser_present [OF present] email emailRegex_test_string sum.case)
next
  assume a: "{''id'', ''name'', ''username'', ''email''} \<subseteq> fst ` set ps
        \<and> own_prop ps ''email'' = Some v"
  then have present: "{''id'', ''name'', ''username'', ''email''} \<subseteq> fst ` set ps"
    and email: "get_member (JObj ps) ''email'' = Data v"
    by (simp_all add: get_member_email)
  show "validateUser (JObj ps) =
          (case to_string v of
             Inl e \<Rightarrow> Inl e
           | Inr t \<Rightarrow>
               if email_pattern t then Inr () else Inl (Error ''User email must be valid format''))"
    by (simp only: validateUser_present [OF present] email emailRegex_test_value)
       (simp split: sum.split)
next
  assume a: "{''id'', ''name'', ''username'', ''email''} \<subseteq> fst ` set ps
        \<and> (\<forall>t. own_prop ps ''email'' \<noteq> Some (JStr t))
        \<and> (\<forall>ys. own_prop ps ''email'' \<noteq> Some (JArr ys))"
  then have present: "{''id'', ''name'', ''username'', ''email''} \<subseteq> fst ` set ps" by simp
  then have "''email'' \<in> fst ` set ps" by simp
  then obtain w where w: "own_prop ps ''email'' = Some w"
    using own_prop_None [of ps "''email''"] by (cases "own_prop ps ''email''") simp_all
  with a have "\<forall>t. w \<noteq> JStr t" and "\<forall>ys. w \<noteq> JArr ys" by simp_all
  then have "emailRegex_test (Data w) = Inr False
    \<or> emailRegex_test (Data w) = Inl (TypeError ''Cannot convert object to primitive value'')"
    by (rule emailRegex_test_other)
  then show "\<exists>e. validateUser (JObj ps) = Inl e"
    unfolding validateUser_present [OF present] get_member_email [OF w] by auto
next
  assume "\<not> spec_email_pattern s"
  then show "\<not> email_pattern s" using email_pattern_imp_spec by blast
next
  assume "\<forall>k\<in>{''id'', ''name'', ''username'', ''email''}. own_prop ps k = own_prop qs k"
  then show "validateUser (JObj ps) = validateUser (JObj qs)" by (rule validateUser_fields)
next
  let ?ps = "[(''id'', JNum (Fin 1)), (''name'', JStr ''n''), (''username'', JStr ''u''),
        (''email'', JStr ''not-an-email'')]"
  have present: "{''id'', ''name'', ''username'', ''email''} \<subseteq> fst ` set ?ps" by simp
  have email: "get_member (JObj ?ps) ''email'' = Data (JStr ''not-an-email'')"
    by (rule get_member_email) (simp add: own_prop_def)
  show "validateUser (JObj ?ps) = Inl (Error ''User email must be valid format'')"
    using email_example_bad
    by (simp only: validateUser_present [OF present] email emailRegex_test_string
        sum.case if_False)
next
  let ?ps = "[(''id'', JNum (Fin 1)), (''name'', JStr ''n''), (''username'', JStr ''u''),
        (''email'', JStr ''a@b.co'')]"
  have present: "{''id'', ''name'', ''username'', ''email''} \<subseteq> fst ` set ?ps" by simp
  have email: "get_member (JObj ?ps) ''email'' = Data (JStr ''a@b.co'')"
    by (rule get_member_email) (simp add: own_prop_def)
  show "validateUser (JObj ?ps) = Inr ()"
    using email_example_good
    by (simp only: validateUser_present [OF present] email emailRegex_test_string
        sum.case if_True)
next
  let ?ps = "[(''id'', JNum (Fin 1)), (''name'', JStr ''n''), (''username'', JStr ''u''),
        (''email'', JArr [JStr ''a@b.co''])]"
  have present: "{''id'', ''name'', ''username'', ''email''} \<subseteq> fst ` set ?ps" by simp
  have email: "get_member (JObj ?ps) ''email'' = Data (JArr [JStr ''a@b.co''])"
    by (rule get_member_email) (simp add: own_prop_def)
  have str: "to_string (JArr [JStr ''a@b.co'']) = Inr ''a@b.co''" by simp
  show "validateUser (JObj ?ps) = Inr ()"
    using email_example_good
    by (simp only: validateUser_present [OF present] email emailRegex_test_value str
        sum.case if_True)
next
  show "to_string (JArr [JStr ''a@b'', JNum (Fin (3 / 2))]) = Inr ''a@b,1.5''"
    by (simp add: positive_to_string_three_halves)
next
  let ?ps = "[(''id'', JNum (Fin 1)), (''name'', JStr ''n''), (''username'', JStr ''u''),
        (''email'', JArr [JStr ''a@b'', JNum (Fin (3 / 2))])]"
  have present: "{''id'', ''name'', ''username'', ''email''} \<subseteq> fst ` set ?ps" by simp
  have email: "get_member (JObj ?ps) ''email'' = Data (JArr [JStr ''a@b'', JNum (Fin (3 / 2))])"
    by (rule get_member_email) (simp add: own_prop_def)
  have str: "to_string (JArr [JStr ''a@b'', JNum (Fin (3 / 2))]) = Inr ''a@b,1.5''"
    by (simp add: positive_to_string_three_halves)
  have good: "email_pattern ''a@b,1.5''"
  proof -
    have "''a@b,1.5'' = ''a'' @ ''@'' @ ''b,1'' @ ''.'' @ ''5'' \<and> email_part ''a''
        \<and> email_part ''b,1'' \<and> email_part ''5''"
      by (simp add: email_part_def is_space_def)
    then show ?thesis unfolding email_pattern_def by blast
  qed
  show "validateUser (JObj ?ps) = Inr ()"
    using good
    by (simp only: validateUser_present [OF present] email emailRegex_test_value str
        sum.case if_True)
next
  let ?ps = "[(''id'', JNum (Fin 1)), (''name'', JStr ''n''), (''username'', JStr ''u''),
        (''email'', JNull)]"
  have present: "{''id'', ''name'', ''username'', ''email''} \<subseteq> fst ` set ?ps" by simp
  have email: "get_member (JObj ?ps) ''email'' = Data JNull"
    by (rule get_member_email) (simp add: own_prop_def)
  have bad: "\<not> email_pattern ''null''"
    using email_pattern_has_at [of "''null''"] by auto
  show "validateUser (JObj ?ps) = Inl (Error ''User email must be valid format'')"
    using bad
    by (simp only: validateUser_present [OF present] email emailRegex_test_value
        to_string.simps sum.case if_False)
qed

text \<open>
  C3 (amended) at a string, at an array, at an object with only an \<^verbatim>\<open>id\<close>, at users with
  the emails \<^verbatim>\<open>x@y.z\<close>, the array of \<^verbatim>\<open>x@y\<close> and \<^verbatim>\<open>z.w\<close> (converted to \<^verbatim>\<open>x@y,z.w\<close>), the
  number 5 and an object with a \<^verbatim>\<open>toString\<close> field, and at a user with an additional
  phone field.
\<close>

theorem validateUser_outcome_witness:
  "validateUser (JStr ''x'') = Inl (Error ''User must be an object'')
   \<and> validateUser (JArr [JStr ''x''])
       = Inl (Error ''User missing required fields: id, name, username, email'')
   \<and> \<not> email_pattern ''x.y'' 
   \<and> validateUser (JObj [(''id'', JNull)]) = Inl (Error ''User missing required fields: name, username, email'')
   \<and> validateUser (JObj [(''email'', JStr ''x@y.z''), (''username'', JNull), (''name'', JNull), (''id'', JNull)])
       = Inr ()
   \<and> validateUser (JObj [(''email'', JArr [JStr ''x@y'', JStr ''z.w'']), (''username'', JNull),
        (''name'', JNull), (''id'', JNull)])
       = Inr ()
   \<and> validateUser (JObj [(''email'', JNum (Fin 5)), (''username'', JNull), (''name'', JNull), (''id'', JNull)])
       = Inl (Error ''User email must be valid format'')
   \<and> validateUser (JObj [(''email'', JObj [(''toString'', JStr ''x@y.z'')]), (''username'', JNull),
        (''name'', JNull), (''id'', JNull)])
       = Inl (TypeError ''Cannot convert object to primitive value'')
   \<and> validateUser (JObj [(''email'', JStr ''x@y.z''), (''username'', JNull), (''name'', JNull), (''id'', JNull),
        (''phone'', JNum (Fin 5))])
       = validateUser (JObj [(''email'', JStr ''x@y.z''), (''username'', JNull), (''name'', JNull), (''id'', JNull)])"
proof -
  let ?ps = "[(''email'', JStr ''x@y.z''), (''username'', JNull), (''name'', JNull), (''id'', JNull)]"
  let ?qs = "[(''email'', JStr ''x@y.z''), (''username'', JNull), (''name'', JNull), (''id'', JNull),
        (''phone'', JNum (Fin 5))]"
  let ?ns = "[(''email'', JNum (Fin 5)), (''username'', JNull), (''name'', JNull), (''id'', JNull)]"
  let ?as = "[(''email'', JArr [JStr ''x@y'', JStr ''z.w'']), (''username'', JNull),
        (''name'', JNull), (''id'', JNull)]"
  let ?os = "[(''email'', JObj [(''toString'', JStr ''x@y.z'')]), (''username'', JNull),
        (''name'', JNull), (''id'', JNull)]"
  have h1: "(\<forall>qs. JStr ''x'' \<noteq> JObj qs) \<and> (\<forall>xs. JStr ''x'' \<noteq> JArr xs)" by simp
  have h2: "\<not> {''id'', ''name'', ''username'', ''email''} \<subseteq> fst ` set [(''id'', JNull)]" by simp
  have h3: "{''id'', ''name'', ''username'', ''email''} \<subseteq> fst ` set ?ps
      \<and> own_prop ?ps ''email'' = Some (JStr ''x@y.z'')"
    by (simp add: own_prop_def)
  have h4: "{''id'', ''name'', ''username'', ''email''} \<subseteq> fst ` set ?ns
      \<and> own_prop ?ns ''email'' = Some (JNum (Fin 5))"
    by (simp add: own_prop_def)
  have h5: "\<forall>k\<in>{''id'', ''name'', ''username'', ''email''}. own_prop ?qs k = own_prop ?ps k"
    by (simp add: own_prop_def)
  have h6: "{''id'', ''name'', ''username'', ''email''} \<subseteq> fst ` set ?as
      \<and> own_prop ?as ''email'' = Some (JArr [JStr ''x@y'', JStr ''z.w''])"
    by (simp add: own_prop_def)
  have h7: "{''id'', ''name'', ''username'', ''email''} \<subseteq> fst ` set ?os
      \<and> own_prop ?os ''email'' = Some (JObj [(''toString'', JStr ''x@y.z'')])"
    by (simp add: own_prop_def)
  have good: "email_pattern ''x@y.z''"
  proof -
    have "''x@y.z'' = ''x'' @ ''@'' @ ''y'' @ ''.'' @ ''z'' \<and> email_part ''x'' \<and> email_part ''y''
        \<and> email_part ''z''"
      by (simp add: email_part_def is_space_def)
    then show ?thesis unfolding email_pattern_def by blast
  qed
  have good': "email_pattern ''x@y,z.w''"
  proof -
    have "''x@y,z.w'' = ''x'' @ ''@'' @ ''y,z'' @ ''.'' @ ''w'' \<and> email_part ''x''
        \<and> email_part ''y,z'' \<and> email_part ''w''"
      by (simp add: email_part_def is_space_def)
    then show ?thesis unfolding email_pattern_def by blast
  qed
  have five: "to_string (JNum (Fin 5)) = Inr (num_to_string (Fin 5))"
    by (simp only: to_string.simps)
  have bad: "\<not> email_pattern (num_to_string (Fin 5))"
    by (simp only: no_at_no_pattern [OF num_to_string_no_at] not_False_eq_True)
  have joined: "to_string (JArr [JStr ''x@y'', JStr ''z.w'']) = Inr ''x@y,z.w''" by simp
  have thrown: "to_string (JObj [(''toString'', JStr ''x@y.z'')])
      = Inl (TypeError ''Cannot convert object to primitive value'')"
    by (simp add: own_prop_def)
  have "\<not> spec_email_pattern ''x.y''"
    using spec_email_pattern_has_at [of "''x.y''"] by auto
  with validateUser_outcome
    [where u = JNull and ps = "[]" and s = "''x.y''" and qs = "[]" and v = JNull
       and xs = "[]"]
  have 0: "\<not> email_pattern ''x.y''" by blast
  from h1 validateUser_outcome
    [where u = "JStr ''x''" and ps = "[]" and s = "[]" and qs = "[]" and v = JNull
       and xs = "[JStr ''x'']"]
  have 1: "validateUser (JStr ''x'') = Inl (Error ''User must be an object'')"
    and arr: "validateUser (JArr [JStr ''x''])
       = Inl (Error ''User missing required fields: id, name, username, email'')"
    by blast+
  from h2 validateUser_outcome
    [where u = JNull and ps = "[(''id'', JNull)]" and s = "[]" and qs = "[]" and v = JNull
       and xs = "[]"]
  have "validateUser (JObj [(''id'', JNull)]) =
          Inl (Error (''User missing required fields: '' @
            join '', '' (filter (\<lambda>f. f \<notin> fst ` set [(''id'', JNull)]) [''id'', ''name'', ''username'', ''email''])))"
    by blast
  then have 2: "validateUser (JObj [(''id'', JNull)])
      = Inl (Error ''User missing required fields: name, username, email'')"
    by simp
  from h3 validateUser_outcome
    [where u = JNull and ps = ?ps and s = "''x@y.z''" and qs = "[]" and v = JNull
       and xs = "[]"]
  have "validateUser (JObj ?ps) =
      (if email_pattern ''x@y.z'' then Inr () else Inl (Error ''User email must be valid format''))"
    by blast
  with good have 3: "validateUser (JObj ?ps) = Inr ()" by (simp only: if_True)
  from h4 validateUser_outcome
    [where u = JNull and ps = ?ns and s = "[]" and qs = "[]" and v = "JNum (Fin 5)" and xs = "[]"]
  have "validateUser (JObj ?ns) =
      (case to_string (JNum (Fin 5)) of
         Inl e \<Rightarrow> Inl e
       | Inr t \<Rightarrow>
           if email_pattern t then Inr () else Inl (Error ''User email must be valid format''))"
    by blast
  with bad have 4: "validateUser (JObj ?ns) = Inl (Error ''User email must be valid format'')"
    by (simp only: five sum.case if_False)
  from h5 validateUser_outcome
    [where u = JNull and ps = ?qs and s = "[]" and qs = ?ps and v = JNull
       and xs = "[]"]
  have 5: "validateUser (JObj ?qs) = validateUser (JObj ?ps)" by blast
  from h6 validateUser_outcome
    [where u = JNull and ps = ?as and s = "[]" and qs = "[]"
       and v = "JArr [JStr ''x@y'', JStr ''z.w'']" and xs = "[]"]
  have "validateUser (JObj ?as) =
      (case to_string (JArr [JStr ''x@y'', JStr ''z.w'']) of
         Inl e \<Rightarrow> Inl e
       | Inr t \<Rightarrow>
           if email_pattern t then Inr () else Inl (Error ''User email must be valid format''))"
    by blast
  with good' have 6: "validateUser (JObj ?as) = Inr ()"
    by (simp only: joined sum.case if_True)
  from h7 validateUser_outcome
    [where u = JNull and ps = ?os and s = "[]" and qs = "[]"
       and v = "JObj [(''toString'', JStr ''x@y.z'')]" and xs = "[]"]
  have "validateUser (JObj ?os) =
      (case to_string (JObj [(''toString'', JStr ''x@y.z'')]) of
         Inl e \<Rightarrow> Inl e
       | Inr t \<Rightarrow>
           if email_pattern t then Inr () else Inl (Error ''User email must be valid format''))"
    by blast
  then have 7: "validateUser (JObj ?os)
      = Inl (TypeError ''Cannot convert object to primitive value'')"
    by (simp only: thrown sum.case)
  from 0 1 arr 2 3 4 5 6 7 show ?thesis by blast
qed

text \<open>
  Claim C4, as stated, fails: a user whose \<^verbatim>\<open>id\<close> is \<open>-1\<close> passes \<^verbatim>\<open>validateUser\<close>, and
  a comment whose \<^verbatim>\<open>id\<close> is a string and whose \<^verbatim>\<open>postId\<close> is \<open>-5\<close> passes
  \<^verbatim>\<open>validateComment\<close>.
\<close>

theorem identifier_checks_counterexample:
  "validateUser (JObj [(''id'', JNum (Fin (- 1))), (''name'', JStr ''n''), (''username'', JStr ''u''),
      (''email'', JStr ''a@b.co'')]) = Inr ()
   \<and> validateComment (JObj [(''id'', JStr ''abc''), (''postId'', JNum (Fin (- 5))),
      (''name'', JStr ''n''), (''email'', JStr ''a@b.co''), (''body'', JStr ''y'')]) = Inr ()"
proof
  let ?ps = "[(''id'', JNum (Fin (- 1))), (''name'', JStr ''n''), (''username'', JStr ''u''),
        (''email'', JStr ''a@b.co'')]"
  have present: "{''id'', ''name'', ''username'', ''email''} \<subseteq> fst ` set ?ps" by simp
  have email: "get_member (JObj ?ps) ''email'' = Data (JStr ''a@b.co'')"
    by (rule get_member_email) (simp add: own_prop_def)
  show "validateUser (JObj ?ps) = Inr ()"
    using email_example_good
    by (simp only: validateUser_present [OF present] email emailRegex_test_string
        sum.case if_True)
  show "validateComment (JObj [(''id'', JStr ''abc''), (''postId'', JNum (Fin (- 5))),
      (''name'', JStr ''n''), (''email'', JStr ''a@b.co''), (''body'', JStr ''y'')]) = Inr ()"
    by (simp add: validateComment_JObj)
qed

lemma not_positive_number_own:
  assumes "own_prop ps k = Some v" "\<forall>n. v = JNum n \<longrightarrow> num_le_zero n"
  shows "not_positive_number (get_member (JObj ps) k)"
  using assms by (cases v) (simp_all add: get_member_def not_positive_number_def)

text \<open>
  Claim C4, amended. Only \<^verbatim>\<open>validatePost\<close> checks identifiers: with its four fields
  present it fails when \<^verbatim>\<open>id\<close> or \<^verbatim>\<open>userId\<close> is not of type number or is a number that is
  at most zero. \<^verbatim>\<open>validateUser\<close> asks only that \<^verbatim>\<open>id\<close> is present, and
  \<^verbatim>\<open>validateComment\<close> only that \<^verbatim>\<open>id\<close> and \<^verbatim>\<open>postId\<close> are present: changing the
  values of these fields, whatever they become, never changes the outcome.
\<close>

theorem identifier_checks_amended:
  "((\<exists>v. own_prop ps ''id'' = Some v \<and> (\<forall>n. v = JNum n \<longrightarrow> num_le_zero n))
      \<or> (\<exists>v. own_prop ps ''userId'' = Some v \<and> (\<forall>n. v = JNum n \<longrightarrow> num_le_zero n))
      \<longrightarrow> (\<exists>msg. validatePost (JObj ps) = Inl (Error msg)))
   \<and> ({''id'', ''userId'', ''title'', ''body''} \<subseteq> fst ` set ps
      \<and> ((\<exists>v. own_prop ps ''id'' = Some v \<and> (\<forall>n. v = JNum n \<longrightarrow> num_le_zero n))
         \<or> (\<exists>v. own_prop ps ''userId'' = Some v \<and> (\<forall>n. v = JNum n \<longrightarrow> num_le_zero n)))
      \<longrightarrow> validatePost (JObj ps) = Inl (Error ''Post ID must be a positive number'')
         \<or> validatePost (JObj ps) = Inl (Error ''User ID must be a positive number''))
   \<and> (own_prop ps ''id'' \<noteq> None \<and> own_prop qs ''id'' \<noteq> None
        \<and> (\<forall>k. k \<noteq> ''id'' \<longrightarrow> own_prop ps k = own_prop qs k)
      \<longrightarrow> validateUser (JObj ps) = validateUser (JObj qs))
   \<and> (own_prop ps ''id'' \<noteq> None \<and> own_prop qs ''id'' \<noteq> None
        \<and> own_prop ps ''postId'' \<noteq> None \<and> own_prop qs ''postId'' \<noteq> None
        \<and> (\<forall>k. k \<noteq> ''id'' \<and> k \<noteq> ''postId'' \<longrightarrow> own_prop ps k = own_prop qs k)
      \<longrightarrow> validateComment (JObj ps) = validateComment (JObj qs))"
proof (intro conjI impI)
  assume a: "(\<exists>v. own_prop ps ''id'' = Some v \<and> (\<forall>n. v = JNum n \<longrightarrow> num_le_zero n))
      \<or> (\<exists>v. own_prop ps ''userId'' = Some v \<and> (\<forall>n. v = JNum n \<longrightarrow> num_le_zero n))"
  then have bad: "not_positive_number (get_member (JObj ps) ''id'')
      \<or> not_positive_number (get_member (JObj ps) ''userId'')"
    using not_positive_number_own by blast
  show "\<exists>msg. validatePost (JObj ps) = Inl (Error msg)"
  proof (cases "{''id'', ''userId'', ''title'', ''body''} \<subseteq> fst ` set ps")
    case True
    with bad show ?thesis
      unfolding validatePost_JObj Let_def post_fields_present by auto
  next
    case False
    then show ?thesis
      unfolding validatePost_JObj Let_def post_fields_present by simp
  qed
next
  assume a: "{''id'', ''userId'', ''title'', ''body''} \<subseteq> fst ` set ps
      \<and> ((\<exists>v. own_prop ps ''id'' = Some v \<and> (\<forall>n. v = JNum n \<longrightarrow> num_le_zero n))
         \<or> (\<exists>v. own_prop ps ''userId'' = Some v \<and> (\<forall>n. v = JNum n \<longrightarrow> num_le_zero n)))"
  then have present: "{''id'', ''userId'', ''title'', ''body''} \<subseteq> fst ` set ps" by blast
  from a have "not_positive_number (get_member (JObj ps) ''id'')
      \<or> not_positive_number (get_member (JObj ps) ''userId'')"
    using not_positive_number_own by blast
  then show "validatePost (JObj ps) = Inl (Error ''Post ID must be a positive number'')
         \<or> validatePost (JObj ps) = Inl (Error ''User ID must be a positive number'')"
    using present unfolding validatePost_JObj Let_def post_fields_present by auto
next
  assume a: "own_prop ps ''id'' \<noteq> None \<and> own_prop qs ''id'' \<noteq> None
        \<and> (\<forall>k. k \<noteq> ''id'' \<longrightarrow> own_prop ps k = own_prop qs k)"
  show "validateUser (JObj ps) = validateUser (JObj qs)"
  proof (rule validateUser_depends)
    from a show "\<forall>k\<in>{''id'', ''name'', ''username'', ''email''}.
        (own_prop ps k = None) = (own_prop qs k = None)"
      by (metis)
    from a show "own_prop ps ''email'' = own_prop qs ''email''" by simp
  qed
next
  assume a: "own_prop ps ''id'' \<noteq> None \<and> own_prop qs ''id'' \<noteq> None
        \<and> own_prop ps ''postId'' \<noteq> None \<and> own_prop qs ''postId'' \<noteq> None
        \<and> (\<forall>k. k \<noteq> ''id'' \<and> k \<noteq> ''postId'' \<longrightarrow> own_prop ps k = own_prop qs k)"
  show "validateComment (JObj ps) = validateComment (JObj qs)"
  proof (rule validateComment_depends)
    from a show "\<forall>k\<in>{''id'', ''postId'', ''name'', ''email'', ''body''}.
        (own_prop ps k = None) = (own_prop qs k = None)"
      by (metis)
  qed
qed

text \<open>
  C4 (amended) at a post whose \<^verbatim>\<open>id\<close> is a string, and at two users and two comments
  that differ in their identifiers only.
\<close>

theorem identifier_checks_amended_witness:
  "(validatePost (JObj [(''id'', JStr ''7''), (''userId'', JNum (Fin 1)), (''title'', JStr ''a''),
        (''body'', JStr ''b'')]) = Inl (Error ''Post ID must be a positive number'')
     \<or> validatePost (JObj [(''id'', JStr ''7''), (''userId'', JNum (Fin 1)), (''title'', JStr ''a''),
        (''body'', JStr ''b'')]) = Inl (Error ''User ID must be a positive number''))
   \<and> (\<exists>msg. validatePost (JObj [(''userId'', JNum (Fin 0)), (''id'', JNum (Fin 1))]) = Inl (Error msg))
   \<and> validateUser (JObj [(''id'', JNum (Fin (- 1))), (''email'', JStr ''e'')])
       = validateUser (JObj [(''id'', JNum (Fin 1)), (''email'', JStr ''e'')])
   \<and> validateComment (JObj [(''id'', JNull), (''postId'', JStr ''p''), (''body'', JNull)])
       = validateComment (JObj [(''id'', JNum (Fin 1)), (''postId'', JNum (Fin 2)), (''body'', JNull)])"
proof -
  let ?z = "[(''userId'', JNum (Fin 0)), (''id'', JNum (Fin 1))]"
  have "own_prop ?z ''userId'' = Some (JNum (Fin 0))
      \<and> (\<forall>n. JNum (Fin 0) = JNum n \<longrightarrow> num_le_zero n)"
    by (simp add: own_prop_def)
  then have "\<exists>v. own_prop ?z ''userId'' = Some v \<and> (\<forall>n. v = JNum n \<longrightarrow> num_le_zero n)"
    by (rule exI)
  then have 0: "\<exists>msg. validatePost (JObj ?z) = Inl (Error msg)"
    using identifier_checks_amended [where ps = ?z and qs = "[]"] by blast
  let ?p = "[(''id'', JStr ''7''), (''userId'', JNum (Fin 1)), (''title'', JStr ''a''),
        (''body'', JStr ''b'')]"
  let ?u1 = "[(''id'', JNum (Fin (- 1))), (''email'', JStr ''e'')]"
  let ?u2 = "[(''id'', JNum (Fin 1)), (''email'', JStr ''e'')]"
  let ?c1 = "[(''id'', JNull), (''postId'', JStr ''p''), (''body'', JNull)]"
  let ?c2 = "[(''id'', JNum (Fin 1)), (''postId'', JNum (Fin 2)), (''body'', JNull)]"
  have "own_prop ?p ''id'' = Some (JStr ''7'') \<and> (\<forall>n. JStr ''7'' = JNum n \<longrightarrow> num_le_zero n)"
    by (simp add: own_prop_def)
  then have "\<exists>v. own_prop ?p ''id'' = Some v \<and> (\<forall>n. v = JNum n \<longrightarrow> num_le_zero n)"
    by (rule exI)
  moreover have "{''id'', ''userId'', ''title'', ''body''} \<subseteq> fst ` set ?p" by simp
  ultimately have 1: "validatePost (JObj ?p) = Inl (Error ''Post ID must be a positive number'')
     \<or> validatePost (JObj ?p) = Inl (Error ''User ID must be a positive number'')"
    using identifier_checks_amended [where ps = ?p and qs = "[]"] by blast
  have "own_prop ?u1 ''id'' \<noteq> None \<and> own_prop ?u2 ''id'' \<noteq> None
      \<and> (\<forall>k. k \<noteq> ''id'' \<longrightarrow> own_prop ?u1 k = own_prop ?u2 k)"
    by (simp add: own_prop_def)
  then have 2: "validateUser (JObj ?u1) = validateUser (JObj ?u2)"
    using identifier_checks_amended [where ps = ?u1 and qs = ?u2] by blast
  have "own_prop ?c1 ''id'' \<noteq> None \<and> own_prop ?c2 ''id'' \<noteq> None
      \<and> own_prop ?c1 ''postId'' \<noteq> None \<and> own_prop ?c2 ''postId'' \<noteq> None
      \<and> (\<forall>k. k \<noteq> ''id'' \<and> k \<noteq> ''postId'' \<longrightarrow> own_prop ?c1 k = own_prop ?c2 k)"
    by (simp add: own_prop_def)
  then have 3: "validateComment (JObj ?c1) = validateComment (JObj ?c2)"
    using identifier_checks_amended [where ps = ?c1 and qs = ?c2] by blast
  from 0 1 2 3 show ?thesis by blast
qed

section \<open>Properties of \<^verbatim>\<open>createInvalidData\<close>\<close>

lemma createInvalidData_unknown:
  assumes "kind \<notin> set [''emptyPost'', ''missingRequiredFields'', ''invalidTypes'', ''oversizedData'',
      ''sqlInjection'', ''xssAttempt'']"
    and "kind \<notin> set object_prototype_keys"
  shows "createInvalidData kind = Data (JObj [])"
proof -
  from assms(1) have "own invalidPatterns kind = None"
    by (simp add: invalidPatterns_def own_prop_None)
  moreover have "inherited_keys invalidPatterns = object_prototype_keys"
    by (simp add: invalidPatterns_def)
  ultimately show ?thesis using assms(2)
    by (simp add: createInvalidData_def get_member_def)
qed

lemma createInvalidData_known:
  "createInvalidData ''emptyPost'' = Data (JObj [])"
  "createInvalidData ''missingRequiredFields'' = Data (JObj [(''title'', JStr ''Only Title'')])"
  "createInvalidData ''invalidTypes'' =
     Data (JObj [(''userId'', JStr ''not-a-number''), (''title'', JNum (Fin 123))])"
  "createInvalidData ''oversizedData'' =
     Data (JObj [(''title'', JStr (replicate 1000 CHR ''x'')), (''body'', JStr (replicate 10000 CHR ''y''))])"
  "createInvalidData ''sqlInjection'' =
     Data (JObj [(''title'', JStr (CHR 0x27 # ''; DROP TABLE posts; --'')), (''body'', JStr ''1 OR 1=1'')])"
  "createInvalidData ''xssAttempt'' =
     Data (JObj [(''title'', JStr (''<script>alert('' @ [CHR 0x22] @ ''xss'' @ [CHR 0x22] @ '')</script>'')),
                 (''body'', JStr ''<img src=x onerror=alert(1)>'')])"
  by (simp_all add: createInvalidData_def get_member_def invalidPatterns_def own_prop_def
     )

text \<open>
  Claim C6. The claim has \<^verbatim>\<open>createInvalidData\<close> return an empty object for every kind
  outside the enumeration. For a kind that names a member of \<^verbatim>\<open>Object.prototype\<close> the
  read \<^verbatim>\<open>invalidPatterns[type]\<close> finds the inherited member, which is truthy, and
  \<^verbatim>\<open>createInvalidData\<close> returns it: a builtin function, not an empty object. (For the
  kinds of the enumeration, and for every other unknown kind, the code does what the claim
  says: \<open>createInvalidData_known\<close>, \<open>createInvalidData_unknown\<close>.)
\<close>

theorem createInvalidData_inherited_key:
  "createInvalidData ''toString'' = Builtin ''toString''
   \<and> createInvalidData ''constructor'' = Builtin ''constructor''"
  by (simp add: createInvalidData_def get_member_def invalidPatterns_def own_prop_def
      object_prototype_keys_def)

text \<open>
  The result for \<^verbatim>\<open>toString\<close> is not the empty object.
\<close>

theorem createInvalidData_inherited_key_witness:
  "createInvalidData ''toString'' \<noteq> Data (JObj [])"
  using createInvalidData_inherited_key by simp

end
